theory Spec2Isabelle
  imports Main
begin

section \<open>Python strings\<close>

text \<open>
  A Python \<open>str\<close> is a sequence of Unicode code points, so a character is a natural
  number and a string a list of them. \<open>py ''abc''\<close> writes a string of ASCII characters.
\<close>

type_synonym pychar = nat
type_synonym pystr = "pychar list"

abbreviation py :: "string \<Rightarrow> pystr" where
  "py s \<equiv> map of_char s"

text \<open>
  \<open>str.isdigit\<close> and \<open>str.strip\<close> consult the interpreter's Unicode character database,
  which is not part of the repository and grows with every Unicode version. Inside ASCII
  the two classes are fixed (the digits \<open>0\<close> to \<open>9\<close>; tab, line feed, vertical tab, form
  feed, carriage return, the four separators 28 to 31 and the space). What lies beyond
  ASCII is a parameter of every function that depends on it.
\<close>

record ucd =
  digit_beyond_ascii :: "pychar \<Rightarrow> bool"
  space_beyond_ascii :: "pychar \<Rightarrow> bool"

definition py_isdigit_char :: "ucd \<Rightarrow> pychar \<Rightarrow> bool" where
  "py_isdigit_char U c = ((48 \<le> c \<and> c \<le> 57) \<or> (128 \<le> c \<and> digit_beyond_ascii U c))"

definition py_isspace_char :: "ucd \<Rightarrow> pychar \<Rightarrow> bool" where
  "py_isspace_char U c =
     ((9 \<le> c \<and> c \<le> 13) \<or> (28 \<le> c \<and> c \<le> 32) \<or> (128 \<le> c \<and> space_beyond_ascii U c))"

text \<open>\<open>s.isdigit()\<close>: at least one character, and every character a digit.\<close>

definition py_isdigit :: "ucd \<Rightarrow> pystr \<Rightarrow> bool" where
  "py_isdigit U s = (s \<noteq> [] \<and> list_all (py_isdigit_char U) s)"

text \<open>\<open>s.strip()\<close>: whitespace removed at both ends.\<close>

definition py_strip :: "ucd \<Rightarrow> pystr \<Rightarrow> pystr" where
  "py_strip U s = rev (dropWhile (py_isspace_char U) (rev (dropWhile (py_isspace_char U) s)))"

text \<open>\<open>s.replace(c, new)\<close> for a one-character string \<open>c\<close>, the only form the source uses.\<close>

definition py_replace_char :: "pychar \<Rightarrow> pystr \<Rightarrow> pystr \<Rightarrow> pystr" where
  "py_replace_char c new s = concat (map (\<lambda>x. if x = c then new else [x]) s)"

text \<open>\<open>s.startswith(p)\<close> and the slice \<open>s[n:]\<close>.\<close>

definition py_startswith :: "pystr \<Rightarrow> pystr \<Rightarrow> bool" where
  "py_startswith s p = (take (length p) s = p)"

definition py_slice_from :: "nat \<Rightarrow> pystr \<Rightarrow> pystr" where
  "py_slice_from n s = drop n s"

text \<open>
  The database of one interpreter, CPython 3.11 (Unicode 14.0), beyond ASCII: the code
  points of numeric type Digit or Decimal, and the whitespace that \<open>strip\<close> removes. It
  instantiates the parameter where a closed term is evaluated.
\<close>

definition in_ranges :: "pychar \<Rightarrow> (nat \<times> nat) list \<Rightarrow> bool" where
  "in_ranges c rs = list_ex (\<lambda>r. fst r \<le> c \<and> c \<le> snd r) rs"

definition unicode14_digit_ranges :: "(nat \<times> nat) list" where
  "unicode14_digit_ranges = [
    (178, 179), (185, 185), (1632, 1641), (1776, 1785), (1984, 1993), (2406, 2415),
    (2534, 2543), (2662, 2671), (2790, 2799), (2918, 2927), (3046, 3055), (3174, 3183),
    (3302, 3311), (3430, 3439), (3558, 3567), (3664, 3673), (3792, 3801), (3872, 3881),
    (4160, 4169), (4240, 4249), (4969, 4977), (6112, 6121), (6160, 6169), (6470, 6479),
    (6608, 6618), (6784, 6793), (6800, 6809), (6992, 7001), (7088, 7097), (7232, 7241),
    (7248, 7257), (8304, 8304), (8308, 8313), (8320, 8329), (9312, 9320), (9332, 9340),
    (9352, 9360), (9450, 9450), (9461, 9469), (9471, 9471), (10102, 10110), (10112, 10120),
    (10122, 10130), (42528, 42537), (43216, 43225), (43264, 43273), (43472, 43481),
    (43504, 43513), (43600, 43609), (44016, 44025), (65296, 65305), (66720, 66729),
    (68160, 68163), (68912, 68921), (69216, 69224), (69714, 69722), (69734, 69743),
    (69872, 69881), (69942, 69951), (70096, 70105), (70384, 70393), (70736, 70745),
    (70864, 70873), (71248, 71257), (71360, 71369), (71472, 71481), (71904, 71913),
    (72016, 72025), (72784, 72793), (73040, 73049), (73120, 73129), (92768, 92777),
    (92864, 92873), (93008, 93017), (120782, 120831), (123200, 123209), (123632, 123641),
    (125264, 125273), (127232, 127242), (130032, 130041)]"

definition unicode14_space_ranges :: "(nat \<times> nat) list" where
  "unicode14_space_ranges = [
    (133, 133), (160, 160), (5760, 5760), (8192, 8202), (8232, 8233), (8239, 8239),
    (8287, 8287), (12288, 12288)]"

definition cpython311 :: ucd where
  "cpython311 = \<lparr>digit_beyond_ascii = (\<lambda>c. in_ranges c unicode14_digit_ranges),
                 space_beyond_ascii = (\<lambda>c. in_ranges c unicode14_space_ranges)\<rparr>"

section \<open>The country table\<close>

record country_data =
  code :: pystr
  patterns :: "pystr list"
  description :: pystr

text \<open>\<open>COUNTRY_CODES\<close> (wpbot.py, lines 27 to 74): the dictionary literal, entry by entry.\<close>

definition COUNTRY_CODES_items :: "(pystr \<times> country_data) list" where
  "COUNTRY_CODES_items = [
    (py ''Turkey'', \<lparr>code = py ''+90'', patterns = [py ''90'', py ''05'', py ''5''],
       description = py ''Turkish mobile numbers''\<rparr>),
    (py ''United States'', \<lparr>code = py ''+1'', patterns = [py ''1''],
       description = py ''US/Canada numbers''\<rparr>),
    (py ''United Kingdom'', \<lparr>code = py ''+44'', patterns = [py ''44'', py ''07''],
       description = py ''UK mobile numbers''\<rparr>),
    (py ''Germany'', \<lparr>code = py ''+49'', patterns = [py ''49'', py ''01''],
       description = py ''German mobile numbers''\<rparr>),
    (py ''France'', \<lparr>code = py ''+33'', patterns = [py ''33'', py ''06'', py ''07''],
       description = py ''French mobile numbers''\<rparr>),
    (py ''Italy'', \<lparr>code = py ''+39'', patterns = [py ''39'', py ''03''],
       description = py ''Italian mobile numbers''\<rparr>),
    (py ''Spain'', \<lparr>code = py ''+34'', patterns = [py ''34'', py ''06''],
       description = py ''Spanish mobile numbers''\<rparr>),
    (py ''Netherlands'', \<lparr>code = py ''+31'', patterns = [py ''31'', py ''06''],
       description = py ''Dutch mobile numbers''\<rparr>),
    (py ''Belgium'', \<lparr>code = py ''+32'', patterns = [py ''32'', py ''04''],
       description = py ''Belgian mobile numbers''\<rparr>),
    (py ''Switzerland'', \<lparr>code = py ''+41'', patterns = [py ''41'', py ''07''],
       description = py ''Swiss mobile numbers''\<rparr>),
    (py ''Austria'', \<lparr>code = py ''+43'', patterns = [py ''43'', py ''06''],
       description = py ''Austrian mobile numbers''\<rparr>),
    (py ''Poland'', \<lparr>code = py ''+48'', patterns = [py ''48'', py ''05''],
       description = py ''Polish mobile numbers''\<rparr>),
    (py ''Czech Republic'', \<lparr>code = py ''+420'', patterns = [py ''420'', py ''07''],
       description = py ''Czech mobile numbers''\<rparr>),
    (py ''Hungary'', \<lparr>code = py ''+36'', patterns = [py ''36'', py ''06''],
       description = py ''Hungarian mobile numbers''\<rparr>),
    (py ''Romania'', \<lparr>code = py ''+40'', patterns = [py ''40'', py ''07''],
       description = py ''Romanian mobile numbers''\<rparr>),
    (py ''Bulgaria'', \<lparr>code = py ''+359'', patterns = [py ''359'', py ''08''],
       description = py ''Bulgarian mobile numbers''\<rparr>),
    (py ''Greece'', \<lparr>code = py ''+30'', patterns = [py ''30'', py ''06''],
       description = py ''Greek mobile numbers''\<rparr>),
    (py ''Portugal'', \<lparr>code = py ''+351'', patterns = [py ''351'', py ''09''],
       description = py ''Portuguese mobile numbers''\<rparr>),
    (py ''Sweden'', \<lparr>code = py ''+46'', patterns = [py ''46'', py ''07''],
       description = py ''Swedish mobile numbers''\<rparr>),
    (py ''Norway'', \<lparr>code = py ''+47'', patterns = [py ''47'', py ''04''],
       description = py ''Norwegian mobile numbers''\<rparr>),
    (py ''Denmark'', \<lparr>code = py ''+45'', patterns = [py ''45'', py ''02''],
       description = py ''Danish mobile numbers''\<rparr>),
    (py ''Finland'', \<lparr>code = py ''+358'', patterns = [py ''358'', py ''04''],
       description = py ''Finnish mobile numbers''\<rparr>),
    (py ''Russia'', \<lparr>code = py ''+7'', patterns = [py ''7'', py ''08''],
       description = py ''Russian mobile numbers''\<rparr>),
    (py ''China'', \<lparr>code = py ''+86'', patterns = [py ''86'', py ''01''],
       description = py ''Chinese mobile numbers''\<rparr>),
    (py ''Japan'', \<lparr>code = py ''+81'', patterns = [py ''81'', py ''09''],
       description = py ''Japanese mobile numbers''\<rparr>),
    (py ''South Korea'', \<lparr>code = py ''+82'', patterns = [py ''82'', py ''01''],
       description = py ''South Korean mobile numbers''\<rparr>),
    (py ''India'', \<lparr>code = py ''+91'', patterns = [py ''91'', py ''09''],
       description = py ''Indian mobile numbers''\<rparr>),
    (py ''Brazil'', \<lparr>code = py ''+55'', patterns = [py ''55'', py ''01''],
       description = py ''Brazilian mobile numbers''\<rparr>),
    (py ''Mexico'', \<lparr>code = py ''+52'', patterns = [py ''52'', py ''04''],
       description = py ''Mexican mobile numbers''\<rparr>),
    (py ''Argentina'', \<lparr>code = py ''+54'', patterns = [py ''54'', py ''01''],
       description = py ''Argentine mobile numbers''\<rparr>),
    (py ''Australia'', \<lparr>code = py ''+61'', patterns = [py ''61'', py ''04''],
       description = py ''Australian mobile numbers''\<rparr>),
    (py ''New Zealand'', \<lparr>code = py ''+64'', patterns = [py ''64'', py ''02''],
       description = py ''New Zealand mobile numbers''\<rparr>),
    (py ''South Africa'', \<lparr>code = py ''+27'', patterns = [py ''27'', py ''08''],
       description = py ''South African mobile numbers''\<rparr>),
    (py ''Egypt'', \<lparr>code = py ''+20'', patterns = [py ''20'', py ''01''],
       description = py ''Egyptian mobile numbers''\<rparr>),
    (py ''Saudi Arabia'', \<lparr>code = py ''+966'', patterns = [py ''966'', py ''05''],
       description = py ''Saudi mobile numbers''\<rparr>),
    (py ''UAE'', \<lparr>code = py ''+971'', patterns = [py ''971'', py ''05''],
       description = py ''UAE mobile numbers''\<rparr>),
    (py ''Israel'', \<lparr>code = py ''+972'', patterns = [py ''972'', py ''05''],
       description = py ''Israeli mobile numbers''\<rparr>),
    (py ''Iran'', \<lparr>code = py ''+98'', patterns = [py ''98'', py ''09''],
       description = py ''Iranian mobile numbers''\<rparr>),
    (py ''Pakistan'', \<lparr>code = py ''+92'', patterns = [py ''92'', py ''03''],
       description = py ''Pakistani mobile numbers''\<rparr>),
    (py ''Bangladesh'', \<lparr>code = py ''+880'', patterns = [py ''880'', py ''01''],
       description = py ''Bangladeshi mobile numbers''\<rparr>),
    (py ''Thailand'', \<lparr>code = py ''+66'', patterns = [py ''66'', py ''08''],
       description = py ''Thai mobile numbers''\<rparr>),
    (py ''Vietnam'', \<lparr>code = py ''+84'', patterns = [py ''84'', py ''03''],
       description = py ''Vietnamese mobile numbers''\<rparr>),
    (py ''Indonesia'', \<lparr>code = py ''+62'', patterns = [py ''62'', py ''08''],
       description = py ''Indonesian mobile numbers''\<rparr>),
    (py ''Malaysia'', \<lparr>code = py ''+60'', patterns = [py ''60'', py ''01''],
       description = py ''Malaysian mobile numbers''\<rparr>),
    (py ''Singapore'', \<lparr>code = py ''+65'', patterns = [py ''65'', py ''08''],
       description = py ''Singaporean mobile numbers''\<rparr>),
    (py ''Philippines'', \<lparr>code = py ''+63'', patterns = [py ''63'', py ''09''],
       description = py ''Filipino mobile numbers''\<rparr>)]"

definition COUNTRY_CODES :: "pystr \<rightharpoonup> country_data" where
  "COUNTRY_CODES = map_of COUNTRY_CODES_items"

section \<open>The number normalizer\<close>

text \<open>
  The loop of \<open>normalize_number\<close> over the patterns (lines 231 to 241): the first pattern
  that the cleaned string starts with returns, and falling off the list returns \<open>None\<close>.
\<close>

fun scan_patterns :: "pystr \<Rightarrow> pystr \<Rightarrow> pystr list \<Rightarrow> pystr option" where
  "scan_patterns country_code cleaned [] = None"
| "scan_patterns country_code cleaned (pattern # rest) =
     (if py_startswith cleaned pattern then
        (if pattern = py_replace_char (of_char CHR ''+'') [] country_code
         then Some (py ''+'' @ cleaned)
         else Some (country_code @ py_slice_from (length pattern) cleaned))
      else scan_patterns country_code cleaned rest)"

text \<open>Lines 214 to 220: strip, then remove spaces, hyphens and both parentheses.\<close>

definition clean_number :: "ucd \<Rightarrow> pystr \<Rightarrow> pystr" where
  "clean_number U raw_number =
     py_replace_char (of_char CHR '')'') []
       (py_replace_char (of_char CHR ''('') []
         (py_replace_char (of_char CHR ''-'') []
           (py_replace_char (of_char CHR '' '') [] (py_strip U raw_number))))"

text \<open>
  \<open>normalize_number\<close> reads the module's global \<open>COUNTRY_CODES\<close>. The body is written over
  the table it reads, and the function itself is the body at the table of the module.
\<close>

definition normalize_number_in ::
  "ucd \<Rightarrow> (pystr \<rightharpoonup> country_data) \<Rightarrow> pystr \<Rightarrow> pystr \<Rightarrow> pystr option" where
  "normalize_number_in U table raw_number country =
     (if raw_number = [] then None
      else case table country of
        None \<Rightarrow> None
      | Some country_data \<Rightarrow>
          (let cleaned = clean_number U raw_number in
           if py_startswith cleaned (py ''+'') then
             (if py_isdigit U (py_replace_char (of_char CHR ''+'') [] cleaned)
              then Some cleaned else None)
           else if \<not> py_isdigit U cleaned then None
           else scan_patterns (code country_data) cleaned (patterns country_data)))"

definition normalize_number :: "ucd \<Rightarrow> pystr \<Rightarrow> pystr \<Rightarrow> pystr option" where
  "normalize_number U raw_number country = normalize_number_in U COUNTRY_CODES raw_number country"

definition normalize_tr_number :: "ucd \<Rightarrow> pystr \<Rightarrow> pystr option" where
  "normalize_tr_number U raw_number = normalize_number U raw_number (py ''Turkey'')"

section \<open>Exceptions, output and external calls\<close>

text \<open>
  A function that can raise returns its exception as a value. \<open>External\<close> stands for an
  exception that a collaborator raises (the operating system on a read, the browser), with
  its text. \<open>UnicodeDecodeError\<close> and \<open>UnicodeEncodeError\<close> are subclasses of
  \<open>ValueError\<close>: a handler \<open>except ValueError\<close> catches them too.
\<close>

datatype py_exception =
    ValueError pystr
  | UnicodeDecodeError
  | UnicodeEncodeError
  | FileNotFoundError pystr
  | RuntimeError pystr
  | External pystr

fun is_ValueError :: "py_exception \<Rightarrow> bool" where
  "is_ValueError (ValueError text) = True"
| "is_ValueError UnicodeDecodeError = True"
| "is_ValueError UnicodeEncodeError = True"
| "is_ValueError (FileNotFoundError text) = False"
| "is_ValueError (RuntimeError text) = False"
| "is_ValueError (External text) = False"

text \<open>
  An external call either returns or raises an \<open>Exception\<close>, whose \<open>str\<close> is kept: the
  handlers of the source are \<open>except Exception as error\<close> and print that text.
\<close>

datatype call_result = Returned | Raised pystr

text \<open>
  The lines the source prints, by their format string and the values it fills in:
  \<^item> \<open>No_valid_recipients\<close>: \<^verbatim>\<open>No valid recipients found.\<close>
  \<^item> \<open>Starting n\<close>: \<^verbatim>\<open>Starting to send message to {n} recipient(s)...\<close>
  \<^item> \<open>Starting_single_tab n\<close>: the same line ending in \<^verbatim>\<open>in single-tab mode...\<close>
  \<^item> \<open>Sending_to index n phone\<close>: \<^verbatim>\<open>[{index}/{n}] Sending to {phone} ...\<close>
  \<^item> \<open>Failed_to_send phone error\<close>: \<^verbatim>\<open>Failed to send to {phone}: {error}\<close>
  \<^item> \<open>Skipping_invalid line\<close>: \<^verbatim>\<open>Skipping invalid phone entry: {line}\<close>
  \<^item> \<open>Done\<close>: \<^verbatim>\<open>Done.\<close>
\<close>

datatype log_line =
    No_valid_recipients
  | Starting nat
  | Starting_single_tab nat
  | Sending_to nat nat pystr
  | Failed_to_send pystr pystr
  | Skipping_invalid pystr
  | Done

text \<open>
  What a run does, in order: a line on standard output or standard error, a
  \<open>time.sleep\<close> that returned, and the calls to the collaborators with what came back.
  Printing is taken to succeed.
  \<^item> \<open>Send_instantly phone message wait tab_close close_time r\<close>:
    \<open>whatkit.sendwhatmsg_instantly\<close> with these arguments.
  \<^item> \<open>Make_profile_dir d\<close>: the \<open>mkdir\<close> of the Chrome profile directory, whose failure
    the source swallows.
  \<^item> \<open>Open_browser r\<close>: starting Chrome and loading WhatsApp Web (lines 297 to 299).
  \<^item> \<open>Login_wait timeout r\<close>: waiting for the logged-in page (lines 301 to 303).
  \<^item> \<open>Chat_send digits message r\<close>: lines 311 to 316 for one recipient, the deep link
    being built from \<open>digits\<close> and the quoted \<open>message\<close>.
\<close>

datatype event =
    Stdout log_line
  | Stderr log_line
  | Sleep int
  | Send_instantly pystr pystr int bool int call_result
  | Make_profile_dir pystr
  | Open_browser call_result
  | Login_wait int call_result
  | Chat_send pystr pystr call_result

section \<open>Files\<close>

text \<open>
  A path is the string it prints as; a path the file system does not map does not exist.
  A file that exists is one of three things:
  \<^item> \<open>Text content\<close>: its bytes are UTF-8 and decode to \<open>content\<close> (newlines translated).
  \<^item> \<open>Undecodable seen\<close>: its bytes are not UTF-8. Reading it whole raises
    \<open>UnicodeDecodeError\<close>; iterating over it hands out the lines of \<open>seen\<close>, the text before
    the block with the offending byte, and then raises \<open>UnicodeDecodeError\<close>.
  \<^item> \<open>Unreadable why\<close>: opening it raises an \<open>OSError\<close> (a directory, no permission).
\<close>

datatype file_node = Text pystr | Undecodable pystr | Unreadable pystr

type_synonym filesystem = "pystr \<rightharpoonup> file_node"

text \<open>Iterating over an open text file: the lines, each with its line feed if it has one.\<close>

fun file_lines :: "pystr \<Rightarrow> pystr list" where
  "file_lines [] = []"
| "file_lines (c # cs) =
     (if c = 10 then [c] # file_lines cs
      else case file_lines cs of [] \<Rightarrow> [[c]] | l # ls \<Rightarrow> (c # l) # ls)"

text \<open>
  The loop of \<open>read_recipients_from_file\<close> (lines 117 to 124). The state is the list
  \<open>recipients\<close> and what has been printed to standard error.
\<close>

fun recipients_loop ::
  "ucd \<Rightarrow> pystr list \<Rightarrow> pystr list \<times> event list \<Rightarrow> pystr list \<times> event list" where
  "recipients_loop U [] state = state"
| "recipients_loop U (raw_line # rest) (recipients, printed) =
     (let line = py_strip U raw_line in
      if line = [] \<or> py_startswith line (py ''#'') then
        recipients_loop U rest (recipients, printed)
      else if \<not> (py_startswith line (py ''+'')
                  \<and> py_isdigit U (py_replace_char (of_char CHR ''+'') [] line)) then
        recipients_loop U rest (recipients, printed @ [Stderr (Skipping_invalid line)])
      else recipients_loop U rest (recipients @ [line], printed))"

text \<open>
  \<open>read_recipients_from_file\<close> returns what it printed to standard error together with
  the list, or with the exception that ended it.
\<close>

definition read_recipients_from_file ::
  "ucd \<Rightarrow> filesystem \<Rightarrow> pystr \<Rightarrow> event list \<times> (py_exception + pystr list)" where
  "read_recipients_from_file U fs file_path =
     (case fs file_path of
        None \<Rightarrow> ([], Inl (FileNotFoundError (py ''Recipients file not found: '' @ file_path)))
      | Some (Unreadable why) \<Rightarrow> ([], Inl (External why))
      | Some (Undecodable seen) \<Rightarrow>
          (snd (recipients_loop U (file_lines seen) ([], [])), Inl UnicodeDecodeError)
      | Some (Text content) \<Rightarrow>
          (snd (recipients_loop U (file_lines content) ([], [])),
           Inr (fst (recipients_loop U (file_lines content) ([], [])))))"

text \<open>
  Truth of \<open>message\<close> in \<open>read_message\<close>: \<open>None\<close> and the empty string are false. A
  \<open>Path\<close> is always true, so \<open>message_file\<close> is true exactly when it is not \<open>None\<close>.
\<close>

definition py_truthy :: "pystr option \<Rightarrow> bool" where
  "py_truthy message = (case message of None \<Rightarrow> False | Some m \<Rightarrow> m \<noteq> [])"

definition read_message ::
  "ucd \<Rightarrow> filesystem \<Rightarrow> pystr option \<Rightarrow> pystr option \<Rightarrow> py_exception + pystr" where
  "read_message U fs message message_file =
     (if py_truthy message \<and> message_file \<noteq> None then
        Inl (ValueError (py ''Provide either --message or --message-file, not both.''))
      else case message_file of
        Some path \<Rightarrow>
          (case fs path of
             None \<Rightarrow> Inl (FileNotFoundError (py ''Message file not found: '' @ path))
           | Some (Unreadable why) \<Rightarrow> Inl (External why)
           | Some (Undecodable seen) \<Rightarrow> Inl UnicodeDecodeError
           | Some (Text content) \<Rightarrow> Inr (py_strip U content))
      | None \<Rightarrow>
          (case message of
             None \<Rightarrow>
               Inl (ValueError (py ''A message is required. Use --message or --message-file.''))
           | Some m \<Rightarrow>
               if m = [] then
                 Inl (ValueError (py ''A message is required. Use --message or --message-file.''))
               else Inr m))"

text \<open>
  The two usage errors are the \<open>ValueError\<close>s that \<open>read_message\<close> raises itself. What a
  handler \<open>except ValueError\<close> around the call catches is more: the decoding error of the
  message file as well.
\<close>

fun is_usage_error :: "py_exception + pystr \<Rightarrow> bool" where
  "is_usage_error (Inl (ValueError text)) = True"
| "is_usage_error other = False"

fun raises_ValueError :: "py_exception + pystr \<Rightarrow> bool" where
  "raises_ValueError (Inl e) = is_ValueError e"
| "raises_ValueError (Inr v) = False"

fun exists_undecodable :: "file_node option \<Rightarrow> bool" where
  "exists_undecodable (Some (Undecodable seen)) = True"
| "exists_undecodable other = False"

text \<open>
  The filter of the recipient list in the words of the specification: the line starts
  with a plus sign and the remainder is all digits.
\<close>

definition strict_filter :: "ucd \<Rightarrow> pystr \<Rightarrow> bool" where
  "strict_filter U line =
     (case line of [] \<Rightarrow> False | c # remainder \<Rightarrow> c = of_char CHR ''+'' \<and> py_isdigit U remainder)"

text \<open>
  The filter in the words of the docstring of \<open>read_recipients_from_file\<close>: the line
  starts with a plus sign and contains only plus signs and digits (and, \<open>isdigit\<close> being
  false on the empty string, at least one digit).
\<close>

definition plus_and_digits :: "ucd \<Rightarrow> pystr \<Rightarrow> bool" where
  "plus_and_digits U line =
     (py_startswith line (py ''+'')
      \<and> list_all (\<lambda>c. c = of_char CHR ''+'' \<or> py_isdigit_char U c) line
      \<and> list_ex (py_isdigit_char U) line)"

text \<open>The lines that are looked at: not empty after trimming, and not a comment.\<close>

definition considered :: "pystr \<Rightarrow> bool" where
  "considered line = (line \<noteq> [] \<and> \<not> py_startswith line (py ''#''))"

section \<open>The dispatchers\<close>

text \<open>
  The loop of \<open>send_messages_to_recipients\<close> (lines 174 to 189) over
  \<open>enumerate(recipients, start=1)\<close>. \<open>sendwhatmsg\<close> is the collaborator: what the call
  for the recipient at \<open>index\<close> does, with the arguments of the call. \<open>time_sleep\<close> is
  the interpreter's \<open>time.sleep\<close> on the settle time of that recipient: it returns, or for
  an argument beyond what it accepts it raises (\<open>OverflowError\<close>, or the \<open>OSError\<close> of the
  platform), inside the \<open>try\<close>, where the handler takes it for a failed send. The sleeps
  of 5, 3 and 2 seconds are taken to return.
\<close>

fun send_loop ::
  "(nat \<Rightarrow> pystr \<Rightarrow> pystr \<Rightarrow> int \<Rightarrow> bool \<Rightarrow> int \<Rightarrow> call_result) \<Rightarrow> (nat \<Rightarrow> int \<Rightarrow> call_result)
     \<Rightarrow> pystr \<Rightarrow> int \<Rightarrow> bool \<Rightarrow> int \<Rightarrow> nat \<Rightarrow> (nat \<times> pystr) list \<Rightarrow> event list" where
  "send_loop sendwhatmsg time_sleep message per_send_wait_seconds tab_close close_time_seconds
     len_recipients [] = []"
| "send_loop sendwhatmsg time_sleep message per_send_wait_seconds tab_close close_time_seconds
     len_recipients ((index, phone_number) # rest) =
     Stdout (Sending_to index len_recipients phone_number) #
     (case sendwhatmsg index phone_number message per_send_wait_seconds tab_close
             close_time_seconds of
        Returned \<Rightarrow>
          Send_instantly phone_number message per_send_wait_seconds tab_close
            close_time_seconds Returned #
          (case time_sleep index (max 20 (per_send_wait_seconds + 10)) of
             Returned \<Rightarrow> [Sleep (max 20 (per_send_wait_seconds + 10))]
           | Raised error \<Rightarrow> [Stderr (Failed_to_send phone_number error), Sleep 5])
      | Raised error \<Rightarrow>
          [Send_instantly phone_number message per_send_wait_seconds tab_close
             close_time_seconds (Raised error),
           Stderr (Failed_to_send phone_number error),
           Sleep 5])
     @ send_loop sendwhatmsg time_sleep message per_send_wait_seconds tab_close
         close_time_seconds len_recipients rest"

text \<open>A run returns what it did and the exception that ended it, if one did.\<close>

definition send_messages_to_recipients ::
  "(nat \<Rightarrow> pystr \<Rightarrow> pystr \<Rightarrow> int \<Rightarrow> bool \<Rightarrow> int \<Rightarrow> call_result) \<Rightarrow> (nat \<Rightarrow> int \<Rightarrow> call_result)
     \<Rightarrow> pystr list \<Rightarrow> pystr \<Rightarrow> int \<Rightarrow> bool \<Rightarrow> int \<Rightarrow> event list \<times> py_exception option" where
  "send_messages_to_recipients sendwhatmsg time_sleep recipients message per_send_wait_seconds
     tab_close close_time_seconds =
     (if recipients = [] then ([Stdout No_valid_recipients], None)
      else
        ([Stdout (Starting (length recipients))]
         @ send_loop sendwhatmsg time_sleep message per_send_wait_seconds tab_close
             close_time_seconds (length recipients) (enumerate 1 recipients)
         @ [Stdout Done],
         None))"

text \<open>
  What the imports at the top of the module left behind: \<open>SELENIUM_AVAILABLE\<close> is false,
  or it is true and \<open>WEBDRIVER_MANAGER_AVAILABLE\<close> has a value.
\<close>

datatype module_imports = Selenium_missing | Selenium_present bool

text \<open>
  The browser, as the answers of its calls: starting it with the profile directory,
  waiting for the login with a timeout, and sending in the chat of the recipient at
  \<open>index\<close>.
\<close>

record browser =
  open_browser :: "pystr option \<Rightarrow> call_result"
  login_wait :: "int \<Rightarrow> call_result"
  chat_send :: "nat \<Rightarrow> pystr \<Rightarrow> pystr \<Rightarrow> call_result"

text \<open>
  \<open>quote_plus(message)\<close> encodes the message as UTF-8 and raises \<open>UnicodeEncodeError\<close>
  when it cannot: when the message has a surrogate code point (U+D800 to U+DFFF).
\<close>

definition utf8_encodable :: "pystr \<Rightarrow> bool" where
  "utf8_encodable s = list_all (\<lambda>c. c < 55296 \<or> 57343 < c) s"

text \<open>
  The loop of \<open>send_messages_single_tab\<close> (lines 306 to 321). The deep link is built at
  line 308, before the line is printed and outside the \<open>try\<close>: when the message cannot be
  quoted, the exception leaves the loop and the function at the first recipient.
\<close>

fun single_tab_loop ::
  "browser \<Rightarrow> pystr \<Rightarrow> nat \<Rightarrow> (nat \<times> pystr) list \<Rightarrow> event list \<times> py_exception option" where
  "single_tab_loop B message len_recipients [] = ([], None)"
| "single_tab_loop B message len_recipients ((index, phone_number) # rest) =
     (let digits_only = py_replace_char (of_char CHR ''+'') [] phone_number in
      if \<not> utf8_encodable message then ([], Some UnicodeEncodeError)
      else
        (Stdout (Sending_to index len_recipients phone_number) #
         (case chat_send B index digits_only message of
            Returned \<Rightarrow> [Chat_send digits_only message Returned, Sleep 3]
          | Raised error \<Rightarrow>
              [Chat_send digits_only message (Raised error),
               Stderr (Failed_to_send phone_number error),
               Sleep 2])
         @ fst (single_tab_loop B message len_recipients rest),
         snd (single_tab_loop B message len_recipients rest)))"

definition send_messages_single_tab ::
  "module_imports \<Rightarrow> browser \<Rightarrow> pystr list \<Rightarrow> pystr \<Rightarrow> int \<Rightarrow> pystr option
     \<Rightarrow> event list \<times> py_exception option" where
  "send_messages_single_tab I B recipients message initial_wait_seconds user_data_dir_path =
     (case I of
        Selenium_missing \<Rightarrow>
          ([], Some (RuntimeError
             (py ''Selenium is not available. Install with: python -m pip install selenium'')))
      | Selenium_present webdriver_manager_available \<Rightarrow>
          if recipients = [] then ([Stdout No_valid_recipients], None)
          else
            (let options =
                   (case user_data_dir_path of
                      None \<Rightarrow> []
                    | Some d \<Rightarrow> if d = [] then [] else [Make_profile_dir d]);
                 timeout = max 30 initial_wait_seconds
             in
             if \<not> webdriver_manager_available then
               (options, Some (RuntimeError
                  (py ''webdriver-manager is not available. Install with: python -m pip install webdriver-manager'')))
             else case open_browser B user_data_dir_path of
               Raised error \<Rightarrow> (options @ [Open_browser (Raised error)], Some (External error))
             | Returned \<Rightarrow>
                 (case login_wait B timeout of
                    Raised error \<Rightarrow>
                      (options @ [Open_browser Returned, Login_wait timeout (Raised error)],
                       Some (External error))
                  | Returned \<Rightarrow>
                      (case single_tab_loop B message (length recipients)
                              (enumerate 1 recipients) of
                         (sent, Some error) \<Rightarrow>
                           (options
                            @ [Open_browser Returned, Login_wait timeout Returned,
                               Stdout (Starting_single_tab (length recipients))]
                            @ sent,
                            Some error)
                       | (sent, None) \<Rightarrow>
                           (options
                            @ [Open_browser Returned, Login_wait timeout Returned,
                               Stdout (Starting_single_tab (length recipients))]
                            @ sent
                            @ [Stdout Done],
                            None)))))"

text \<open>
  Reading a run. The attempts are the calls to a send collaborator, each for a number. An
  attempt is reported failed when a line \<^verbatim>\<open>Failed to send to ...\<close> is printed after it
  and before the next attempt, and the reason is the error of that line; it counts as
  sent otherwise.
\<close>

datatype outcome = Sent | Failed pystr

fun attempted :: "event \<Rightarrow> pystr list" where
  "attempted (Send_instantly phone message w tc ct r) = [phone]"
| "attempted (Chat_send digits message r) = [digits]"
| "attempted other = []"

definition attempts :: "event list \<Rightarrow> pystr list" where
  "attempts trace = concat (map attempted trace)"

fun reported_failure :: "event list \<Rightarrow> pystr option" where
  "reported_failure [] = None"
| "reported_failure (Stderr (Failed_to_send phone error) # es) = Some error"
| "reported_failure (Send_instantly phone message w tc ct r # es) = None"
| "reported_failure (Chat_send digits message r # es) = None"
| "reported_failure (e # es) = reported_failure es"

fun outcome_after :: "event list \<Rightarrow> outcome" where
  "outcome_after es = (case reported_failure es of None \<Rightarrow> Sent | Some error \<Rightarrow> Failed error)"

fun outcomes :: "event list \<Rightarrow> outcome list" where
  "outcomes [] = []"
| "outcomes (Send_instantly phone message w tc ct r # es) = outcome_after es # outcomes es"
| "outcomes (Chat_send digits message r # es) = outcome_after es # outcomes es"
| "outcomes (e # es) = outcomes es"

text \<open>
  The path of one recipient through each loop, as the specification describes it: the
  progress line, the send, and then either the settle pause or the diagnostic and the
  recovery pause. \<open>slept\<close> is what \<open>time.sleep\<close> did with the settle time.
\<close>

fun pywhatkit_path ::
  "pystr \<Rightarrow> int \<Rightarrow> bool \<Rightarrow> int \<Rightarrow> nat \<Rightarrow> nat \<Rightarrow> pystr \<Rightarrow> call_result \<Rightarrow> call_result \<Rightarrow> event list" where
  "pywhatkit_path message w tc ct n index phone Returned Returned =
     [Stdout (Sending_to index n phone), Send_instantly phone message w tc ct Returned,
      Sleep (max 20 (w + 10))]"
| "pywhatkit_path message w tc ct n index phone Returned (Raised error) =
     [Stdout (Sending_to index n phone), Send_instantly phone message w tc ct Returned,
      Stderr (Failed_to_send phone error), Sleep 5]"
| "pywhatkit_path message w tc ct n index phone (Raised error) slept =
     [Stdout (Sending_to index n phone), Send_instantly phone message w tc ct (Raised error),
      Stderr (Failed_to_send phone error), Sleep 5]"

fun pywhatkit_outcome :: "call_result \<Rightarrow> call_result \<Rightarrow> outcome" where
  "pywhatkit_outcome Returned Returned = Sent"
| "pywhatkit_outcome Returned (Raised error) = Failed error"
| "pywhatkit_outcome (Raised error) slept = Failed error"

fun single_tab_path :: "pystr \<Rightarrow> nat \<Rightarrow> nat \<Rightarrow> pystr \<Rightarrow> call_result \<Rightarrow> event list" where
  "single_tab_path message n index phone Returned =
     [Stdout (Sending_to index n phone),
      Chat_send (py_replace_char (of_char CHR ''+'') [] phone) message Returned,
      Sleep 3]"
| "single_tab_path message n index phone (Raised error) =
     [Stdout (Sending_to index n phone),
      Chat_send (py_replace_char (of_char CHR ''+'') [] phone) message (Raised error),
      Stderr (Failed_to_send phone error), Sleep 2]"

fun outcome_of :: "call_result \<Rightarrow> outcome" where
  "outcome_of Returned = Sent"
| "outcome_of (Raised error) = Failed error"

text \<open>
  Collaborators to run the dispatchers with: those that always return, and those that
  raise for the second recipient only. \<open>cpython_sleep\<close> raises as CPython 3.11 does for a
  time that does not fit its clock.
\<close>

definition steady_sendwhatmsg :: "nat \<Rightarrow> pystr \<Rightarrow> pystr \<Rightarrow> int \<Rightarrow> bool \<Rightarrow> int \<Rightarrow> call_result" where
  "steady_sendwhatmsg index phone message w tc ct = Returned"

definition flaky_sendwhatmsg :: "nat \<Rightarrow> pystr \<Rightarrow> pystr \<Rightarrow> int \<Rightarrow> bool \<Rightarrow> int \<Rightarrow> call_result" where
  "flaky_sendwhatmsg index phone message w tc ct =
     (if index = 2 then Raised (py ''timeout'') else Returned)"

definition cpython_sleep :: "nat \<Rightarrow> int \<Rightarrow> call_result" where
  "cpython_sleep index seconds =
     (if 9223372036 < seconds then Raised (py ''timestamp too large to convert to C _PyTime_t'')
      else Returned)"

definition steady_browser :: browser where
  "steady_browser =
     \<lparr>open_browser = (\<lambda>d. Returned), login_wait = (\<lambda>t. Returned),
      chat_send = (\<lambda>index digits message. Returned)\<rparr>"

definition flaky_browser :: browser where
  "flaky_browser =
     \<lparr>open_browser = (\<lambda>d. Returned), login_wait = (\<lambda>t. Returned),
      chat_send = (\<lambda>index digits message.
        if index = 2 then Raised (py ''no message box'') else Returned)\<rparr>"

section \<open>Inputs and conditions of the properties\<close>

text \<open>The five lines of the recipient-list example, as the text of a file.\<close>

definition claim_lines_file :: pystr where
  "claim_lines_file =
     py ''# comment'' @ [10] @ [10] @ py ''+12345'' @ [10] @ py ''notanumber'' @ [10]
     @ py ''+1a2b3c'' @ [10]"

text \<open>
  The condition of the usage error in the words of the specification: both an inline
  message and a message file are supplied, or neither is.
\<close>

definition both_or_neither :: "pystr option \<Rightarrow> pystr option \<Rightarrow> bool" where
  "both_or_neither message message_file =
     ((message \<noteq> None \<and> message_file \<noteq> None) \<or> (message = None \<and> message_file = None))"

text \<open>
  A file system with two message files: one whose text has whitespace at both ends, and
  one that is not UTF-8.
\<close>

definition message_fs :: filesystem where
  "message_fs =
     [py ''message.txt'' \<mapsto> Text ([32, 9] @ py ''Hello,  world'' @ [32, 10]),
      py ''cp1254.txt'' \<mapsto> Undecodable []]"

text \<open>
  The strings of the form \<open>^\+[0-9]+$\<close>: a plus sign followed by one or more of the ten
  ASCII digits.
\<close>

definition e164_ascii :: "pystr \<Rightarrow> bool" where
  "e164_ascii s =
     (case s of [] \<Rightarrow> False
      | c # ds \<Rightarrow> c = of_char CHR ''+'' \<and> ds \<noteq> [] \<and> list_all (\<lambda>d. 48 \<le> d \<and> d \<le> 57) ds)"

text \<open>A table with one made-up country whose patterns are listed as \<open>5\<close>, then \<open>55\<close>.\<close>

definition pattern_order_table :: "pystr \<rightharpoonup> country_data" where
  "pattern_order_table =
     [py ''Orderland'' \<mapsto> \<lparr>code = py ''+90'', patterns = [py ''5'', py ''55''],
                          description = py ''first listed pattern wins''\<rparr>]"

section \<open>Facts about the table and about strings\<close>

text \<open>No key is listed twice, so looking a country up in the list is the dictionary's lookup.\<close>

lemma COUNTRY_CODES_keys_distinct: "distinct (map fst COUNTRY_CODES_items)"
  unfolding COUNTRY_CODES_items_def by simp

lemma COUNTRY_CODES_Turkey:
  "COUNTRY_CODES (py ''Turkey'') =
     Some \<lparr>code = py ''+90'', patterns = [py ''90'', py ''05'', py ''5''],
           description = py ''Turkish mobile numbers''\<rparr>"
  by (simp add: COUNTRY_CODES_def COUNTRY_CODES_items_def)

lemma py_replace_char_empty: "py_replace_char c [] s = filter (\<lambda>x. x \<noteq> c) s"
  by (induction s) (simp_all add: py_replace_char_def)

lemma py_replace_char_absent: "c \<notin> set s \<Longrightarrow> py_replace_char c [] s = s"
  by (auto simp add: py_replace_char_empty filter_id_conv)

lemma strip_both_ends_id:
  assumes "s \<noteq> []" "\<not> P (hd s)" "\<not> P (last s)"
  shows "rev (dropWhile P (rev (dropWhile P s))) = s"
proof -
  from assms(1,2) have a: "dropWhile P s = s" by (cases s) simp_all
  from assms(1,3) have "dropWhile P (rev s) = rev s"
    by (cases "rev s") (simp_all add: last_rev[symmetric] hd_rev)
  with a show ?thesis by simp
qed

lemma strip_both_ends_idem:
  "rev (dropWhile P (rev (dropWhile P (rev (dropWhile P (rev (dropWhile P s))))))) =
   rev (dropWhile P (rev (dropWhile P s)))"
proof -
  define d where "d = dropWhile P s"
  define t where "t = rev (dropWhile P (rev d))"
  have "rev (dropWhile P (rev (dropWhile P t))) = t"
  proof (cases "t = []")
    case True
    then show ?thesis by simp
  next
    case False
    have split: "d = t @ rev (takeWhile P (rev d))"
      unfolding t_def by (metis rev_append rev_rev_ident takeWhile_dropWhile_id)
    from False have "d \<noteq> []" unfolding t_def by auto
    then have "\<not> P (hd d)" unfolding d_def by (rule hd_dropWhile)
    moreover from split False have "hd d = hd t" by (metis hd_append2)
    ultimately have h: "\<not> P (hd t)" by simp
    from False have "dropWhile P (rev d) \<noteq> []" unfolding t_def by simp
    then have "\<not> P (hd (dropWhile P (rev d)))" by (rule hd_dropWhile)
    moreover from False have "last t = hd (dropWhile P (rev d))"
      unfolding t_def by (simp add: last_rev)
    ultimately have l: "\<not> P (last t)" by simp
    from False h l show ?thesis by (rule strip_both_ends_id)
  qed
  then show ?thesis unfolding t_def d_def .
qed

lemma py_strip_id:
  "s \<noteq> [] \<Longrightarrow> \<not> py_isspace_char U (hd s) \<Longrightarrow> \<not> py_isspace_char U (last s) \<Longrightarrow> py_strip U s = s"
  unfolding py_strip_def by (rule strip_both_ends_id)

lemma py_strip_idem: "py_strip U (py_strip U s) = py_strip U s"
  unfolding py_strip_def by (rule strip_both_ends_idem)

lemma e164_ascii_clean:
  assumes "e164_ascii raw"
  shows "clean_number U raw = raw"
proof -
  from assms obtain ds where raw: "raw = 43 # ds" and ne: "ds \<noteq> []"
    and dig: "list_all (\<lambda>d. 48 \<le> d \<and> d \<le> 57) ds"
    by (auto simp: e164_ascii_def split: list.splits)
  from dig have range: "\<forall>c \<in> set raw. c = 43 \<or> (48 \<le> c \<and> c \<le> 57)"
    by (auto simp: raw list_all_iff)
  from ne have "last raw \<in> set ds" by (simp add: raw)
  with dig have "48 \<le> last raw \<and> last raw \<le> 57" by (auto simp: list_all_iff)
  then have "\<not> py_isspace_char U (last raw)" by (simp add: py_isspace_char_def)
  moreover have "\<not> py_isspace_char U (hd raw)" by (simp add: raw py_isspace_char_def)
  ultimately have s: "py_strip U raw = raw" by (simp add: py_strip_id raw)
  have "32 \<notin> set raw" "45 \<notin> set raw" "40 \<notin> set raw" "41 \<notin> set raw"
    using range by fastforce+
  then show ?thesis by (simp add: clean_number_def s py_replace_char_absent)
qed

lemma normalize_number_in_plus:
  assumes "raw \<noteq> []" "table country = Some cd" "py_startswith (clean_number U raw) (py ''+'')"
  shows "normalize_number_in U table raw country =
     (if py_isdigit U (py_replace_char (of_char CHR ''+'') [] (clean_number U raw))
      then Some (clean_number U raw) else None)"
  using assms by (simp add: normalize_number_in_def Let_def)

lemma e164_ascii_accepted:
  assumes "e164_ascii raw" "table country = Some cd"
  shows "normalize_number_in U table raw country = Some raw"
proof -
  from assms obtain ds where raw: "raw = 43 # ds" and ne: "ds \<noteq> []"
    and dig: "list_all (\<lambda>d. 48 \<le> d \<and> d \<le> 57) ds"
    by (auto simp: e164_ascii_def split: list.splits)
  have c: "clean_number U raw = raw" using assms(1) by (rule e164_ascii_clean)
  from dig have "43 \<notin> set ds" by (auto simp: list_all_iff)
  then have "py_replace_char 43 [] raw = ds"
    using py_replace_char_absent[of 43 ds] by (simp add: raw py_replace_char_empty)
  moreover from dig ne have "py_isdigit U ds"
    by (auto simp: py_isdigit_def py_isdigit_char_def list_all_iff)
  ultimately have dg: "py_isdigit U (py_replace_char (of_char CHR ''+'') [] (clean_number U raw))"
    by (simp add: c)
  have sw: "py_startswith (clean_number U raw) (py ''+'')"
    unfolding c by (simp add: raw py_startswith_def)
  have "raw \<noteq> []" by (simp add: raw)
  then have "normalize_number_in U table raw country =
     (if py_isdigit U (py_replace_char (of_char CHR ''+'') [] (clean_number U raw))
      then Some (clean_number U raw) else None)"
    using assms(2) sw by (rule normalize_number_in_plus)
  with dg c show ?thesis by simp
qed

lemma py_isdigit_not_plus:
  assumes "py_isdigit U s"
  shows "\<not> py_startswith s (py ''+'')"
proof -
  from assms obtain c cs where s: "s = c # cs" and "py_isdigit_char U c"
    by (cases s) (auto simp: py_isdigit_def)
  then have "c \<noteq> 43" by (auto simp: py_isdigit_char_def)
  then show ?thesis by (simp add: s py_startswith_def)
qed

lemma scan_patterns_find:
  "scan_patterns cc cleaned ps =
     (case find (py_startswith cleaned) ps of
        None \<Rightarrow> None
      | Some p \<Rightarrow>
          if p = py_replace_char (of_char CHR ''+'') [] cc then Some (py ''+'' @ cleaned)
          else Some (cc @ py_slice_from (length p) cleaned))"
  by (induction ps) simp_all

section \<open>The normalizer on Turkish numbers\<close>

text \<open>
  C1. What \<open>normalize_number\<close> returns for Turkey on the three forms of one number. The
  form with the country code, \<open>905551234567\<close>, becomes \<open>+905551234567\<close>. The local form
  \<open>5551234567\<close> matches the pattern \<open>5\<close> and the trunk form \<open>05551234567\<close> the pattern \<open>05\<close>;
  the whole pattern is cut off before \<open>+90\<close> is put in front, so both become
  \<open>+90551234567\<close>, one digit short of \<open>+905551234567\<close>.
\<close>

theorem normalize_number_turkey_forms:
  "normalize_number U (py ''5551234567'') (py ''Turkey'') = Some (py ''+90551234567'')
   \<and> normalize_number U (py ''05551234567'') (py ''Turkey'') = Some (py ''+90551234567'')
   \<and> normalize_number U (py ''905551234567'') (py ''Turkey'') = Some (py ''+905551234567'')"
  unfolding normalize_number_def normalize_number_in_def COUNTRY_CODES_Turkey
  by (simp add: clean_number_def py_strip_def py_isspace_char_def py_replace_char_def
      py_startswith_def py_isdigit_def py_isdigit_char_def py_slice_from_def)

section \<open>Inputs that begin with a plus sign\<close>

text \<open>
  C2. The input \<open>+1+2\<close> is cleaned to itself and begins with a plus sign, and what follows
  the leading plus sign, \<open>1+2\<close>, is not all digits. The test of line 224 removes every plus
  sign before asking for digits, so the string is returned as it is, with a plus sign in
  its interior.
\<close>

theorem normalize_number_interior_plus:
  "clean_number U (py ''+1+2'') = py ''+1+2''
   \<and> py_startswith (clean_number U (py ''+1+2'')) (py ''+'')
   \<and> \<not> py_isdigit U (py ''1+2'')
   \<and> normalize_number U (py ''+1+2'') (py ''Turkey'') = Some (py ''+1+2'')"
  unfolding normalize_number_def normalize_number_in_def COUNTRY_CODES_Turkey
  by (simp add: clean_number_def py_strip_def py_isspace_char_def py_replace_char_def
      py_startswith_def py_isdigit_def py_isdigit_char_def)

text \<open>
  C3, as the claim states it, fails for a country that is not a key of the table: the
  guard on the first line of \<open>normalize_number\<close> returns \<open>None\<close> before the input is looked
  at.
\<close>

theorem normalize_number_unknown_country:
  "e164_ascii (py ''+123'')
   \<and> normalize_number cpython311 (py ''+123'') (py ''Atlantis'') = None"
  by (simp add: e164_ascii_def normalize_number_def normalize_number_in_def
      COUNTRY_CODES_def COUNTRY_CODES_items_def)

text \<open>
  C3, amended. An input of the form \<open>^\+[0-9]+$\<close> is returned unchanged for every country
  that is a key of \<open>COUNTRY_CODES\<close>, whichever it is, and rejected for every other country
  argument.
\<close>

theorem normalize_number_e164_identity:
  "e164_ascii raw \<Longrightarrow>
     normalize_number U raw country = (if country \<in> dom COUNTRY_CODES then Some raw else None)"
proof (cases "COUNTRY_CODES country")
  case None
  then show ?thesis by (simp add: normalize_number_def normalize_number_in_def dom_def)
next
  case (Some cd)
  assume "e164_ascii raw"
  then have "normalize_number_in U COUNTRY_CODES raw country = Some raw"
    using Some by (rule e164_ascii_accepted)
  with Some show ?thesis by (simp add: normalize_number_def dom_def)
qed

theorem normalize_number_e164_identity_witness:
  "e164_ascii (py ''+4915112345678'')
   \<and> py ''Turkey'' \<in> dom COUNTRY_CODES
   \<and> normalize_number cpython311 (py ''+4915112345678'') (py ''Turkey'')
       = Some (py ''+4915112345678'')"
proof -
  have e: "e164_ascii (py ''+4915112345678'')" by (simp add: e164_ascii_def)
  have d: "py ''Turkey'' \<in> dom COUNTRY_CODES" using COUNTRY_CODES_Turkey by (simp add: dom_def)
  from normalize_number_e164_identity [OF e, of cpython311 "py ''Turkey''"] e d
  show ?thesis by simp
qed

section \<open>Pattern order\<close>

text \<open>
  C4. When the cleaned input is all digits, the result is decided by the first pattern in
  the listed order that the cleaned input starts with: \<open>find\<close> returns the first element
  of the list that satisfies the test. No later pattern is looked at, however long.
\<close>

theorem first_listed_pattern_decides:
  assumes "raw \<noteq> []" and "table country = Some cd" and "py_isdigit U (clean_number U raw)"
  shows "normalize_number_in U table raw country =
     (case find (py_startswith (clean_number U raw)) (patterns cd) of
        None \<Rightarrow> None
      | Some p \<Rightarrow>
          if p = py_replace_char (of_char CHR ''+'') [] (code cd)
          then Some (py ''+'' @ clean_number U raw)
          else Some (code cd @ py_slice_from (length p) (clean_number U raw)))"
proof -
  from assms(3) have "\<not> py_startswith (clean_number U raw) (py ''+'')"
    by (rule py_isdigit_not_plus)
  with assms show ?thesis
    by (simp add: normalize_number_in_def Let_def scan_patterns_find)
qed

text \<open>
  With the patterns listed as \<open>5\<close>, then \<open>55\<close>, the input \<open>5551234567\<close> is matched by \<open>5\<close>:
  one digit is cut, not two.
\<close>

theorem first_listed_pattern_decides_witness:
  "find (py_startswith (py ''5551234567'')) [py ''5'', py ''55''] = Some (py ''5'')
   \<and> normalize_number_in cpython311 pattern_order_table (py ''5551234567'') (py ''Orderland'')
       = Some (py ''+90551234567'')
   \<and> normalize_number_in cpython311 pattern_order_table (py ''5551234567'') (py ''Orderland'')
       \<noteq> Some (py ''+9051234567'')"
proof -
  let ?cd = "\<lparr>code = py ''+90'', patterns = [py ''5'', py ''55''],
               description = py ''first listed pattern wins''\<rparr>"
  have c: "clean_number cpython311 (py ''5551234567'') = py ''5551234567''"
    by (simp add: clean_number_def py_strip_def py_isspace_char_def py_replace_char_def)
  have a: "py ''5551234567'' \<noteq> []" by simp
  have b: "pattern_order_table (py ''Orderland'') = Some ?cd"
    by (simp add: pattern_order_table_def)
  have d: "py_isdigit cpython311 (clean_number cpython311 (py ''5551234567''))"
    unfolding c by (simp add: py_isdigit_def py_isdigit_char_def)
  from first_listed_pattern_decides
    [of "py ''5551234567''" pattern_order_table "py ''Orderland''" ?cd cpython311, OF a b d]
  show ?thesis
    unfolding c by (simp add: py_startswith_def py_replace_char_def py_slice_from_def)
qed

section \<open>The legacy Turkish normalizer\<close>

text \<open>
  C10. \<open>normalize_tr_number\<close> is \<open>normalize_number\<close> at the country \<open>Turkey\<close>, for every
  input; both are the body of the normalizer at the table's entry for Turkey.
\<close>

theorem normalize_tr_number_is_turkey:
  "normalize_tr_number U raw = normalize_number U raw (py ''Turkey'')
   \<and> normalize_tr_number U raw =
       normalize_number_in U
         [py ''Turkey'' \<mapsto> \<lparr>code = py ''+90'', patterns = [py ''90'', py ''05'', py ''5''],
                            description = py ''Turkish mobile numbers''\<rparr>]
         raw (py ''Turkey'')"
  unfolding normalize_tr_number_def normalize_number_def normalize_number_in_def
    COUNTRY_CODES_Turkey
  by simp

section \<open>Reading the recipients file\<close>

text \<open>
  What the loop keeps, for every file: after trimming, the lines that are not empty and
  not comments are split by the test of line 121, which is the test \<open>plus_and_digits\<close>.
\<close>

lemma source_test_is_plus_and_digits:
  "(py_startswith line (py ''+'') \<and> py_isdigit U (py_replace_char (of_char CHR ''+'') [] line))
     = plus_and_digits U line"
proof -
  have d: "\<And>c. py_isdigit_char U c \<Longrightarrow> c \<noteq> 43" by (auto simp: py_isdigit_char_def)
  have "py_isdigit U (filter (\<lambda>x. x \<noteq> 43) line) =
        (list_all (\<lambda>c. c = 43 \<or> py_isdigit_char U c) line \<and> list_ex (py_isdigit_char U) line)"
    using d by (auto simp: py_isdigit_def list_all_iff list_ex_iff filter_empty_conv)
  then show ?thesis by (simp add: plus_and_digits_def py_replace_char_empty)
qed

lemma recipients_loop_filter:
  "recipients_loop U ls (rs, pr) =
     (rs @ filter (plus_and_digits U) (filter considered (map (py_strip U) ls)),
      pr @ map (\<lambda>l. Stderr (Skipping_invalid l))
             (filter (\<lambda>l. \<not> plus_and_digits U l) (filter considered (map (py_strip U) ls))))"
proof (induction ls arbitrary: rs pr)
  case Nil
  then show ?case by simp
next
  case (Cons l ls)
  show ?case
    using source_test_is_plus_and_digits [of "py_strip U l" U]
    by (simp add: Let_def Cons.IH considered_def)
qed

lemma file_lines_claim:
  "file_lines claim_lines_file =
     [py ''# comment'' @ [10], [10], py ''+12345'' @ [10], py ''notanumber'' @ [10],
      py ''+1a2b3c'' @ [10]]"
  by (simp add: claim_lines_file_def)

lemma example_lines_trimmed:
  "map (py_strip U) (file_lines claim_lines_file) =
     [py ''# comment'', [], py ''+12345'', py ''notanumber'', py ''+1a2b3c'']"
  unfolding file_lines_claim by (simp add: py_strip_def py_isspace_char_def)

lemma example_lines_considered:
  "filter considered [py ''# comment'', [], py ''+12345'', py ''notanumber'', py ''+1a2b3c''] =
     [py ''+12345'', py ''notanumber'', py ''+1a2b3c'']"
  by (simp add: considered_def py_startswith_def)

lemma example_lines_tested:
  "plus_and_digits U (py ''+12345'')"
  "\<not> plus_and_digits U (py ''notanumber'')"
  "\<not> plus_and_digits U (py ''+1a2b3c'')"
  by (simp_all add: plus_and_digits_def py_startswith_def py_isdigit_char_def)

lemma read_recipients_example:
  "read_recipients_from_file U [py ''recipients.txt'' \<mapsto> Text claim_lines_file]
       (py ''recipients.txt'')
     = ([Stderr (Skipping_invalid (py ''notanumber'')),
         Stderr (Skipping_invalid (py ''+1a2b3c''))],
        Inr [py ''+12345''])"
proof -
  have "recipients_loop U (file_lines claim_lines_file) ([], []) =
      ([py ''+12345''],
       [Stderr (Skipping_invalid (py ''notanumber'')),
        Stderr (Skipping_invalid (py ''+1a2b3c''))])"
    unfolding recipients_loop_filter example_lines_trimmed example_lines_considered
    using example_lines_tested [of U] by simp
  then show ?thesis by (simp add: read_recipients_from_file_def)
qed

text \<open>
  C5. The five lines of the example, \<open># comment\<close>, an empty line, \<open>+12345\<close>, \<open>notanumber\<close>
  and \<open>+1a2b3c\<close>, give exactly \<open>+12345\<close>, with one diagnostic for each of the two invalid
  lines and none for the comment and the empty line. But a line with a further plus sign,
  \<open>+1+2\<close> or \<open>++7\<close>, does not pass the filter "starts with a plus sign and the remainder
  is all digits", and the function keeps it, with no diagnostic: the test of line 121
  removes every plus sign before it asks for digits.
\<close>

theorem read_recipients_keeps_interior_plus:
  "read_recipients_from_file U
       [py ''recipients.txt'' \<mapsto> Text (py ''+1+2'' @ [10] @ py ''++7'' @ [10])]
       (py ''recipients.txt'')
     = ([], Inr [py ''+1+2'', py ''++7''])
   \<and> \<not> strict_filter U (py ''+1+2'')
   \<and> \<not> strict_filter U (py ''++7'')
   \<and> read_recipients_from_file U [py ''recipients.txt'' \<mapsto> Text claim_lines_file]
       (py ''recipients.txt'')
     = ([Stderr (Skipping_invalid (py ''notanumber'')),
         Stderr (Skipping_invalid (py ''+1a2b3c''))],
        Inr [py ''+12345''])"
proof -
  have "read_recipients_from_file U
       [py ''recipients.txt'' \<mapsto> Text (py ''+1+2'' @ [10] @ py ''++7'' @ [10])]
       (py ''recipients.txt'')
     = ([], Inr [py ''+1+2'', py ''++7''])"
    by (simp add: read_recipients_from_file_def py_strip_def py_isspace_char_def Let_def
        py_startswith_def py_isdigit_def py_isdigit_char_def py_replace_char_def)
  moreover have "\<not> strict_filter U (py ''+1+2'')" "\<not> strict_filter U (py ''++7'')"
    by (simp_all add: strict_filter_def py_isdigit_def py_isdigit_char_def)
  ultimately show ?thesis using read_recipients_example [of U] by simp
qed

section \<open>Reading the message\<close>

text \<open>
  C9, as the claim states it, fails on an inline message that is supplied and empty: with
  no message file, exactly one of the two is supplied, and \<open>read_message\<close> raises the usage
  error all the same, since the empty string is false.
\<close>

theorem read_message_empty_inline:
  "is_usage_error (read_message cpython311 message_fs (Some []) None)
   \<and> \<not> both_or_neither (Some []) None"
  by (simp add: read_message_def py_truthy_def both_or_neither_def)

text \<open>
  C9, amended. An inline message counts as supplied when it is not empty. \<open>read_message\<close>
  raises one of its two usage errors if and only if both a non-empty inline message and a
  message file are supplied, or neither is. Otherwise, when a message file is given: if it
  exists and is UTF-8 text, the result is its whole text trimmed at both ends, and
  trimming that result again changes nothing; if it exists and is not UTF-8,
  \<open>UnicodeDecodeError\<close> is raised; if it does not exist, \<open>FileNotFoundError\<close> is raised. When
  only a non-empty inline text is given, the result is that text as it is. A
  \<open>UnicodeDecodeError\<close> is a \<open>ValueError\<close> too: what \<open>except ValueError\<close> catches is the two
  usage errors and the decoding error of a message file given without a non-empty inline
  message, and nothing else.
\<close>

theorem read_message_cases:
  "is_usage_error (read_message U fs message message_file)
     = ((py_truthy message \<and> message_file \<noteq> None) \<or> (\<not> py_truthy message \<and> message_file = None))
   \<and> raises_ValueError (read_message U fs message message_file)
     = ((py_truthy message \<and> message_file \<noteq> None) \<or> (\<not> py_truthy message \<and> message_file = None)
        \<or> (\<not> py_truthy message
            \<and> (case message_file of None \<Rightarrow> False | Some path \<Rightarrow> exists_undecodable (fs path))))
   \<and> (\<not> py_truthy message \<longrightarrow> message_file = Some path \<longrightarrow> fs path = Some (Text content) \<longrightarrow>
        read_message U fs message message_file = Inr (py_strip U content)
        \<and> py_strip U (py_strip U content) = py_strip U content)
   \<and> (\<not> py_truthy message \<longrightarrow> message_file = Some path \<longrightarrow> fs path = Some (Undecodable seen) \<longrightarrow>
        read_message U fs message message_file = Inl UnicodeDecodeError)
   \<and> (\<not> py_truthy message \<longrightarrow> message_file = Some path \<longrightarrow> fs path = None \<longrightarrow>
        read_message U fs message message_file
          = Inl (FileNotFoundError (py ''Message file not found: '' @ path)))
   \<and> (message = Some text \<longrightarrow> text \<noteq> [] \<longrightarrow> message_file = None \<longrightarrow>
        read_message U fs message message_file = Inr text)"
proof (intro conjI impI)
  show "is_usage_error (read_message U fs message message_file)
     = ((py_truthy message \<and> message_file \<noteq> None) \<or> (\<not> py_truthy message \<and> message_file = None))"
    by (auto simp: read_message_def py_truthy_def split: option.splits file_node.splits)
  show "raises_ValueError (read_message U fs message message_file)
     = ((py_truthy message \<and> message_file \<noteq> None) \<or> (\<not> py_truthy message \<and> message_file = None)
        \<or> (\<not> py_truthy message
            \<and> (case message_file of None \<Rightarrow> False | Some path \<Rightarrow> exists_undecodable (fs path))))"
    by (auto simp: read_message_def py_truthy_def split: option.splits file_node.splits)
next
  assume "\<not> py_truthy message" "message_file = Some path" "fs path = Some (Text content)"
  then show "read_message U fs message message_file = Inr (py_strip U content)"
    by (simp add: read_message_def)
  show "py_strip U (py_strip U content) = py_strip U content" by (rule py_strip_idem)
next
  assume "\<not> py_truthy message" "message_file = Some path" "fs path = Some (Undecodable seen)"
  then show "read_message U fs message message_file = Inl UnicodeDecodeError"
    by (simp add: read_message_def)
next
  assume "\<not> py_truthy message" "message_file = Some path" "fs path = None"
  then show "read_message U fs message message_file
      = Inl (FileNotFoundError (py ''Message file not found: '' @ path))"
    by (simp add: read_message_def)
next
  assume "message = Some text" "text \<noteq> []" "message_file = None"
  then show "read_message U fs message message_file = Inr text"
    by (simp add: read_message_def py_truthy_def)
qed

theorem read_message_cases_witness:
  "\<not> py_truthy None
   \<and> message_fs (py ''message.txt'') = Some (Text ([32, 9] @ py ''Hello,  world'' @ [32, 10]))
   \<and> read_message cpython311 message_fs None (Some (py ''message.txt'')) = Inr (py ''Hello,  world'')
   \<and> message_fs (py ''cp1254.txt'') = Some (Undecodable [])
   \<and> read_message cpython311 message_fs None (Some (py ''cp1254.txt'')) = Inl UnicodeDecodeError
   \<and> raises_ValueError (read_message cpython311 message_fs None (Some (py ''cp1254.txt'')))
   \<and> \<not> is_usage_error (read_message cpython311 message_fs None (Some (py ''cp1254.txt'')))
   \<and> message_fs (py ''missing.txt'') = None
   \<and> read_message cpython311 message_fs None (Some (py ''missing.txt''))
       = Inl (FileNotFoundError (py ''Message file not found: missing.txt''))
   \<and> py ''Hello'' \<noteq> []
   \<and> read_message cpython311 message_fs (Some (py ''Hello'')) None = Inr (py ''Hello'')
   \<and> is_usage_error (read_message cpython311 message_fs (Some (py ''Hello'')) (Some (py ''message.txt'')))
   \<and> is_usage_error (read_message cpython311 message_fs None None)"
proof -
  have t: "\<not> py_truthy None" "py_truthy (Some (py ''Hello''))" by (simp_all add: py_truthy_def)
  have f: "message_fs (py ''message.txt'') = Some (Text ([32, 9] @ py ''Hello,  world'' @ [32, 10]))"
    "message_fs (py ''cp1254.txt'') = Some (Undecodable [])"
    "message_fs (py ''missing.txt'') = None"
    by (simp_all add: message_fs_def)
  have s: "py_strip cpython311 ([32, 9] @ py ''Hello,  world'' @ [32, 10]) = py ''Hello,  world''"
    by (simp add: py_strip_def py_isspace_char_def)
  from read_message_cases
    [of cpython311 message_fs None "Some (py ''message.txt'')" "py ''message.txt''"
      "[32, 9] @ py ''Hello,  world'' @ [32, 10]" "[]" "py ''Hello''"]
    read_message_cases
    [of cpython311 message_fs None "Some (py ''cp1254.txt'')" "py ''cp1254.txt''" "[]" "[]"
      "py ''Hello''"]
    read_message_cases
    [of cpython311 message_fs None "Some (py ''missing.txt'')" "py ''missing.txt''" "[]" "[]"
      "py ''Hello''"]
    read_message_cases
    [of cpython311 message_fs "Some (py ''Hello'')" None "py ''message.txt''" "[]" "[]"
      "py ''Hello''"]
    read_message_cases
    [of cpython311 message_fs "Some (py ''Hello'')" "Some (py ''message.txt'')" "py ''message.txt''"
      "[]" "[]" "py ''Hello''"]
    read_message_cases
    [of cpython311 message_fs None None "py ''message.txt''" "[]" "[]" "py ''Hello''"]
    t f s
  show ?thesis by simp
qed

section \<open>Dispatch\<close>

lemma attempts_simps:
  "attempts [] = []"
  "attempts (e # es) = attempted e @ attempts es"
  "attempts (xs @ ys) = attempts xs @ attempts ys"
  by (simp_all add: attempts_def)

lemma send_loop_paths:
  "send_loop send slp m w tc ct n ps =
     concat (map (\<lambda>(i, p). pywhatkit_path m w tc ct n i p (send i p m w tc ct)
                  (slp i (max 20 (w + 10)))) ps)"
  by (induction ps) (auto split: call_result.splits)

lemma single_tab_loop_paths:
  "utf8_encodable m \<Longrightarrow>
     single_tab_loop B m n ps =
       (concat (map (\<lambda>(i, p). single_tab_path m n i p
                  (chat_send B i (py_replace_char (of_char CHR ''+'') [] p) m)) ps), None)"
  by (induction ps) (auto simp: Let_def split: call_result.splits)

lemma single_tab_loop_unquotable:
  "\<not> utf8_encodable m \<Longrightarrow> ps \<noteq> [] \<Longrightarrow> single_tab_loop B m n ps = ([], Some UnicodeEncodeError)"
  by (cases ps) (auto simp: Let_def)

lemma pywhatkit_path_observed:
  "attempts (pywhatkit_path m w tc ct n i p r s @ rest) = p # attempts rest"
  "reported_failure (pywhatkit_path m w tc ct n i p r s @ rest) = None"
  "reported_failure rest = None \<Longrightarrow>
     outcomes (pywhatkit_path m w tc ct n i p r s @ rest) = pywhatkit_outcome r s # outcomes rest"
  by (cases r; cases s; simp add: attempts_simps)+

lemma single_tab_path_observed:
  "attempts (single_tab_path m n i p r @ rest) = py_replace_char (of_char CHR ''+'') [] p # attempts rest"
  "reported_failure (single_tab_path m n i p r @ rest) = None"
  "reported_failure rest = None \<Longrightarrow>
     outcomes (single_tab_path m n i p r @ rest) = outcome_of r # outcomes rest"
  by (cases r; simp add: attempts_simps)+

lemma pywhatkit_paths_observed:
  assumes "reported_failure tail = None"
  shows "reported_failure (concat (map (\<lambda>(i, p). pywhatkit_path m w tc ct n i p (f i p) (g i)) ps) @ tail) = None
    \<and> outcomes (concat (map (\<lambda>(i, p). pywhatkit_path m w tc ct n i p (f i p) (g i)) ps) @ tail)
        = map (\<lambda>(i, p). pywhatkit_outcome (f i p) (g i)) ps @ outcomes tail
    \<and> attempts (concat (map (\<lambda>(i, p). pywhatkit_path m w tc ct n i p (f i p) (g i)) ps) @ tail)
        = map snd ps @ attempts tail"
  using assms by (induction ps) (auto simp: pywhatkit_path_observed)

lemma single_tab_paths_observed:
  assumes "reported_failure tail = None"
  shows "reported_failure (concat (map (\<lambda>(i, p). single_tab_path m n i p (f i p)) ps) @ tail) = None
    \<and> outcomes (concat (map (\<lambda>(i, p). single_tab_path m n i p (f i p)) ps) @ tail)
        = map (\<lambda>(i, p). outcome_of (f i p)) ps @ outcomes tail
    \<and> attempts (concat (map (\<lambda>(i, p). single_tab_path m n i p (f i p)) ps) @ tail)
        = map (\<lambda>(i, p). py_replace_char (of_char CHR ''+'') [] p) ps @ attempts tail"
  using assms by (induction ps) (auto simp: single_tab_path_observed)

lemma pywhatkit_trace:
  "fst (send_messages_to_recipients send slp rs m w tc ct) =
     (if rs = [] then [Stdout No_valid_recipients]
      else [Stdout (Starting (length rs))]
        @ concat (map (\<lambda>(i, p). pywhatkit_path m w tc ct (length rs) i p (send i p m w tc ct)
                    (slp i (max 20 (w + 10)))) (enumerate 1 rs))
        @ [Stdout Done])"
  by (simp add: send_messages_to_recipients_def send_loop_paths)

lemma single_tab_trace:
  assumes "utf8_encodable m" and "open_browser B d = Returned"
    and "login_wait B (max 30 iw) = Returned"
  shows "send_messages_single_tab (Selenium_present True) B rs m iw d =
     (if rs = [] then ([Stdout No_valid_recipients], None)
      else
        ((case d of None \<Rightarrow> [] | Some dir \<Rightarrow> if dir = [] then [] else [Make_profile_dir dir])
         @ [Open_browser Returned, Login_wait (max 30 iw) Returned,
            Stdout (Starting_single_tab (length rs))]
         @ concat (map (\<lambda>(i, p). single_tab_path m (length rs) i p
                     (chat_send B i (py_replace_char (of_char CHR ''+'') [] p) m))
             (enumerate 1 rs))
         @ [Stdout Done],
         None))"
  using assms by (simp add: send_messages_single_tab_def Let_def single_tab_loop_paths)

lemma single_tab_unquotable:
  assumes "\<not> utf8_encodable m" and "rs \<noteq> []" and "open_browser B d = Returned"
    and "login_wait B (max 30 iw) = Returned"
  shows "send_messages_single_tab (Selenium_present True) B rs m iw d =
     ((case d of None \<Rightarrow> [] | Some dir \<Rightarrow> if dir = [] then [] else [Make_profile_dir dir])
      @ [Open_browser Returned, Login_wait (max 30 iw) Returned,
         Stdout (Starting_single_tab (length rs))],
      Some UnicodeEncodeError)"
proof -
  from assms(2) have "enumerate 1 rs \<noteq> []" by (cases rs) simp_all
  with assms(1) have "single_tab_loop B m (length rs) (enumerate 1 rs) = ([], Some UnicodeEncodeError)"
    by (rule single_tab_loop_unquotable)
  with assms show ?thesis by (simp add: send_messages_single_tab_def Let_def)
qed

lemma outcomes_pywhatkit:
  "outcomes (fst (send_messages_to_recipients send slp rs m w tc ct)) =
     map (\<lambda>(i, p). pywhatkit_outcome (send i p m w tc ct) (slp i (max 20 (w + 10))))
       (enumerate 1 rs)"
  using pywhatkit_paths_observed
    [of "[Stdout Done]" m w tc ct "length rs" "\<lambda>i p. send i p m w tc ct"
      "\<lambda>i. slp i (max 20 (w + 10))" "enumerate 1 rs"]
  by (simp add: pywhatkit_trace)

lemma attempts_pywhatkit:
  "attempts (fst (send_messages_to_recipients send slp rs m w tc ct)) = rs"
  using pywhatkit_paths_observed
    [of "[Stdout Done]" m w tc ct "length rs" "\<lambda>i p. send i p m w tc ct"
      "\<lambda>i. slp i (max 20 (w + 10))" "enumerate 1 rs"]
  by (simp add: pywhatkit_trace attempts_simps)

lemma map_snd_enumerate_fun: "map (\<lambda>(i, p). g p) (enumerate n rs) = map g rs"
proof -
  have "map (\<lambda>(i, p). g p) (enumerate n rs) = map g (map snd (enumerate n rs))"
    by (simp only: map_map comp_def split_def)
  then show ?thesis by simp
qed

lemma outcomes_single_tab:
  assumes "utf8_encodable m" and "open_browser B d = Returned"
    and "login_wait B (max 30 iw) = Returned"
  shows "outcomes (fst (send_messages_single_tab (Selenium_present True) B rs m iw d)) =
     map (\<lambda>(i, p). outcome_of (chat_send B i (py_replace_char (of_char CHR ''+'') [] p) m))
       (enumerate 1 rs)"
  using single_tab_paths_observed
    [of "[Stdout Done]" m "length rs"
      "\<lambda>i p. chat_send B i (py_replace_char (of_char CHR ''+'') [] p) m" "enumerate 1 rs"]
  unfolding single_tab_trace [OF assms]
  by (simp split: option.splits)

lemma attempts_single_tab:
  assumes "utf8_encodable m" and "open_browser B d = Returned"
    and "login_wait B (max 30 iw) = Returned"
  shows "attempts (fst (send_messages_single_tab (Selenium_present True) B rs m iw d)) =
     map (py_replace_char (of_char CHR ''+'') []) rs"
  using single_tab_paths_observed
    [of "[Stdout Done]" m "length rs"
      "\<lambda>i p. chat_send B i (py_replace_char (of_char CHR ''+'') [] p) m" "enumerate 1 rs"]
  unfolding single_tab_trace [OF assms]
  by (simp add: attempts_simps map_snd_enumerate_fun split: option.splits)

lemma in_enumerate_1: "k < length rs \<Longrightarrow> (Suc k, rs ! k) \<in> set (enumerate 1 rs)"
  by (simp add: in_set_enumerate_eq)

lemma failure_printed_pywhatkit:
  assumes "k < length rs" and "send (Suc k) (rs ! k) m w tc ct = Raised err"
  shows "Stderr (Failed_to_send (rs ! k) err)
     \<in> set (fst (send_messages_to_recipients send slp rs m w tc ct))"
proof -
  from assms(1) have ne: "rs \<noteq> []" by auto
  have "Stderr (Failed_to_send (rs ! k) err)
      \<in> set (pywhatkit_path m w tc ct (length rs) (Suc k) (rs ! k) (send (Suc k) (rs ! k) m w tc ct)
               (slp (Suc k) (max 20 (w + 10))))"
    using assms(2) by simp
  with in_enumerate_1 [OF assms(1)] ne show ?thesis
    unfolding pywhatkit_trace by (simp, blast)
qed

lemma failure_printed_single_tab:
  assumes "utf8_encodable m" and "open_browser B d = Returned"
    and "login_wait B (max 30 iw) = Returned"
    and "k < length rs"
    and "chat_send B (Suc k) (py_replace_char (of_char CHR ''+'') [] (rs ! k)) m = Raised err"
  shows "Stderr (Failed_to_send (rs ! k) err)
     \<in> set (fst (send_messages_single_tab (Selenium_present True) B rs m iw d))"
proof -
  from assms(4) have ne: "rs \<noteq> []" by auto
  have "Stderr (Failed_to_send (rs ! k) err)
      \<in> set (single_tab_path m (length rs) (Suc k) (rs ! k)
               (chat_send B (Suc k) (py_replace_char (of_char CHR ''+'') [] (rs ! k)) m))"
    using assms(5) by simp
  with in_enumerate_1 [OF assms(4)] ne show ?thesis
    unfolding single_tab_trace [OF assms(1-3)] by (simp, blast)
qed

text \<open>
  C6. Let the send collaborator raise for recipient \<open>k\<close> (counted from 0, so its index in
  the loop is \<open>k + 1\<close>) of \<open>N\<close> recipients. In either strategy the run ends without an
  exception. Between its first and its last line the run is the paths of the recipients
  one after the other, in order, and the path of each recipient is the one its own send
  (and its own settle sleep) determines: the progress line, the send, then the settle
  pause, or the diagnostic and the recovery pause. So there are exactly \<open>N\<close> outcomes;
  outcome \<open>k\<close> is \<open>Failed\<close> with the text of the exception, which is printed to standard
  error; and the numbers the attempts were made for are the recipients, each once and in
  order: no recipient is tried a second time. For the single-tab strategy this is the run
  of a browser that started and logged in, on a message that \<open>quote_plus\<close> can encode; on
  a message it cannot encode the run ends with \<open>UnicodeEncodeError\<close> before any attempt, so
  that no send fails.
\<close>

theorem failed_send_does_not_stop_dispatch:
  assumes "k < length recipients"
  shows
    "(sendwhatmsg (Suc k) (recipients ! k) message w tc ct = Raised err \<longrightarrow>
        snd (send_messages_to_recipients sendwhatmsg time_sleep recipients message w tc ct) = None
        \<and> fst (send_messages_to_recipients sendwhatmsg time_sleep recipients message w tc ct)
            = [Stdout (Starting (length recipients))]
              @ concat (map (\<lambda>(index, phone).
                    pywhatkit_path message w tc ct (length recipients) index phone
                      (sendwhatmsg index phone message w tc ct)
                      (time_sleep index (max 20 (w + 10))))
                  (enumerate 1 recipients))
              @ [Stdout Done]
        \<and> length (outcomes (fst (send_messages_to_recipients sendwhatmsg time_sleep recipients
              message w tc ct))) = length recipients
        \<and> outcomes (fst (send_messages_to_recipients sendwhatmsg time_sleep recipients
              message w tc ct)) ! k = Failed err
        \<and> Stderr (Failed_to_send (recipients ! k) err)
            \<in> set (fst (send_messages_to_recipients sendwhatmsg time_sleep recipients
                  message w tc ct))
        \<and> (\<forall>j < length recipients.
              outcomes (fst (send_messages_to_recipients sendwhatmsg time_sleep recipients
                message w tc ct)) ! j
              = pywhatkit_outcome (sendwhatmsg (Suc j) (recipients ! j) message w tc ct)
                  (time_sleep (Suc j) (max 20 (w + 10))))
        \<and> attempts (fst (send_messages_to_recipients sendwhatmsg time_sleep recipients
              message w tc ct)) = recipients)
     \<and> (utf8_encodable message \<longrightarrow> open_browser B d = Returned \<longrightarrow>
        login_wait B (max 30 iw) = Returned \<longrightarrow>
        chat_send B (Suc k) (py_replace_char (of_char CHR ''+'') [] (recipients ! k)) message
          = Raised err' \<longrightarrow>
        snd (send_messages_single_tab (Selenium_present True) B recipients message iw d) = None
        \<and> fst (send_messages_single_tab (Selenium_present True) B recipients message iw d)
            = (case d of None \<Rightarrow> [] | Some dir \<Rightarrow> if dir = [] then [] else [Make_profile_dir dir])
              @ [Open_browser Returned, Login_wait (max 30 iw) Returned,
                 Stdout (Starting_single_tab (length recipients))]
              @ concat (map (\<lambda>(index, phone).
                    single_tab_path message (length recipients) index phone
                      (chat_send B index (py_replace_char (of_char CHR ''+'') [] phone) message))
                  (enumerate 1 recipients))
              @ [Stdout Done]
        \<and> length (outcomes (fst (send_messages_single_tab (Selenium_present True) B recipients
              message iw d))) = length recipients
        \<and> outcomes (fst (send_messages_single_tab (Selenium_present True) B recipients
              message iw d)) ! k = Failed err'
        \<and> Stderr (Failed_to_send (recipients ! k) err')
            \<in> set (fst (send_messages_single_tab (Selenium_present True) B recipients
                  message iw d))
        \<and> (\<forall>j < length recipients.
              outcomes (fst (send_messages_single_tab (Selenium_present True) B recipients
                message iw d)) ! j
              = outcome_of (chat_send B (Suc j)
                   (py_replace_char (of_char CHR ''+'') [] (recipients ! j)) message))
        \<and> attempts (fst (send_messages_single_tab (Selenium_present True) B recipients
              message iw d)) = map (py_replace_char (of_char CHR ''+'') []) recipients)
     \<and> (\<not> utf8_encodable message \<longrightarrow> open_browser B d = Returned \<longrightarrow>
        login_wait B (max 30 iw) = Returned \<longrightarrow>
        snd (send_messages_single_tab (Selenium_present True) B recipients message iw d)
          = Some UnicodeEncodeError
        \<and> attempts (fst (send_messages_single_tab (Selenium_present True) B recipients
              message iw d)) = [])"
proof (intro conjI impI)
  from assms have ne: "recipients \<noteq> []" by auto
  show "snd (send_messages_to_recipients sendwhatmsg time_sleep recipients message w tc ct) = None"
    by (simp add: send_messages_to_recipients_def)
  show "fst (send_messages_to_recipients sendwhatmsg time_sleep recipients message w tc ct)
      = [Stdout (Starting (length recipients))]
        @ concat (map (\<lambda>(index, phone).
              pywhatkit_path message w tc ct (length recipients) index phone
                (sendwhatmsg index phone message w tc ct)
                (time_sleep index (max 20 (w + 10))))
            (enumerate 1 recipients))
        @ [Stdout Done]"
    using ne by (simp add: pywhatkit_trace)
  show "length (outcomes (fst (send_messages_to_recipients sendwhatmsg time_sleep recipients
        message w tc ct))) = length recipients"
    by (simp add: outcomes_pywhatkit)
  show "attempts (fst (send_messages_to_recipients sendwhatmsg time_sleep recipients
        message w tc ct)) = recipients"
    by (rule attempts_pywhatkit)
  show "\<forall>j < length recipients.
      outcomes (fst (send_messages_to_recipients sendwhatmsg time_sleep recipients
        message w tc ct)) ! j
      = pywhatkit_outcome (sendwhatmsg (Suc j) (recipients ! j) message w tc ct)
          (time_sleep (Suc j) (max 20 (w + 10)))"
    by (simp add: outcomes_pywhatkit nth_enumerate_eq)
next
  assume f: "sendwhatmsg (Suc k) (recipients ! k) message w tc ct = Raised err"
  show "outcomes (fst (send_messages_to_recipients sendwhatmsg time_sleep recipients
        message w tc ct)) ! k = Failed err"
    using assms f by (simp add: outcomes_pywhatkit nth_enumerate_eq)
  show "Stderr (Failed_to_send (recipients ! k) err)
      \<in> set (fst (send_messages_to_recipients sendwhatmsg time_sleep recipients message w tc ct))"
    using assms f by (rule failure_printed_pywhatkit)
next
  assume r: "utf8_encodable message" "open_browser B d = Returned"
    "login_wait B (max 30 iw) = Returned"
  from assms have ne: "recipients \<noteq> []" by auto
  show "snd (send_messages_single_tab (Selenium_present True) B recipients message iw d) = None"
    unfolding single_tab_trace [OF r] by simp
  show "fst (send_messages_single_tab (Selenium_present True) B recipients message iw d)
      = (case d of None \<Rightarrow> [] | Some dir \<Rightarrow> if dir = [] then [] else [Make_profile_dir dir])
        @ [Open_browser Returned, Login_wait (max 30 iw) Returned,
           Stdout (Starting_single_tab (length recipients))]
        @ concat (map (\<lambda>(index, phone).
              single_tab_path message (length recipients) index phone
                (chat_send B index (py_replace_char (of_char CHR ''+'') [] phone) message))
            (enumerate 1 recipients))
        @ [Stdout Done]"
    unfolding single_tab_trace [OF r] using ne by simp
  show "length (outcomes (fst (send_messages_single_tab (Selenium_present True) B recipients
        message iw d))) = length recipients"
    by (simp add: outcomes_single_tab [OF r])
  show "attempts (fst (send_messages_single_tab (Selenium_present True) B recipients
        message iw d)) = map (py_replace_char (of_char CHR ''+'') []) recipients"
    using r by (rule attempts_single_tab)
  show "\<forall>j < length recipients.
      outcomes (fst (send_messages_single_tab (Selenium_present True) B recipients
        message iw d)) ! j
      = outcome_of (chat_send B (Suc j)
           (py_replace_char (of_char CHR ''+'') [] (recipients ! j)) message)"
    by (simp add: outcomes_single_tab [OF r] nth_enumerate_eq)
  assume f: "chat_send B (Suc k) (py_replace_char (of_char CHR ''+'') [] (recipients ! k)) message
      = Raised err'"
  show "outcomes (fst (send_messages_single_tab (Selenium_present True) B recipients
        message iw d)) ! k = Failed err'"
    using assms f by (simp add: outcomes_single_tab [OF r] nth_enumerate_eq)
  show "Stderr (Failed_to_send (recipients ! k) err')
      \<in> set (fst (send_messages_single_tab (Selenium_present True) B recipients message iw d))"
    using r assms f by (rule failure_printed_single_tab)
next
  assume u: "\<not> utf8_encodable message" and o: "open_browser B d = Returned"
    and l: "login_wait B (max 30 iw) = Returned"
  from assms have ne: "recipients \<noteq> []" by auto
  note x = single_tab_unquotable [OF u ne o l]
  show "snd (send_messages_single_tab (Selenium_present True) B recipients message iw d)
      = Some UnicodeEncodeError"
    unfolding x by simp
  show "attempts (fst (send_messages_single_tab (Selenium_present True) B recipients
        message iw d)) = []"
    unfolding x by (simp add: attempts_simps split: option.splits)
qed

theorem failed_send_does_not_stop_dispatch_witness:
  "(1::nat) < length [py ''+905551234567'', py ''+4915112345678'', py ''+12025550123'']
   \<and> flaky_sendwhatmsg 2 (py ''+4915112345678'') (py ''hello'') 40 True 3 = Raised (py ''timeout'')
   \<and> send_messages_to_recipients flaky_sendwhatmsg cpython_sleep
         [py ''+905551234567'', py ''+4915112345678'', py ''+12025550123''] (py ''hello'') 40 True 3
       = ([Stdout (Starting 3),
           Stdout (Sending_to 1 3 (py ''+905551234567'')),
           Send_instantly (py ''+905551234567'') (py ''hello'') 40 True 3 Returned,
           Sleep 50,
           Stdout (Sending_to 2 3 (py ''+4915112345678'')),
           Send_instantly (py ''+4915112345678'') (py ''hello'') 40 True 3 (Raised (py ''timeout'')),
           Stderr (Failed_to_send (py ''+4915112345678'') (py ''timeout'')),
           Sleep 5,
           Stdout (Sending_to 3 3 (py ''+12025550123'')),
           Send_instantly (py ''+12025550123'') (py ''hello'') 40 True 3 Returned,
           Sleep 50,
           Stdout Done], None)
   \<and> outcomes (fst (send_messages_to_recipients flaky_sendwhatmsg cpython_sleep
         [py ''+905551234567'', py ''+4915112345678'', py ''+12025550123''] (py ''hello'') 40 True 3))
       = [Sent, Failed (py ''timeout''), Sent]
   \<and> attempts (fst (send_messages_to_recipients flaky_sendwhatmsg cpython_sleep
         [py ''+905551234567'', py ''+4915112345678'', py ''+12025550123''] (py ''hello'') 40 True 3))
       = [py ''+905551234567'', py ''+4915112345678'', py ''+12025550123'']
   \<and> utf8_encodable (py ''hello'')
   \<and> open_browser flaky_browser None = Returned
   \<and> login_wait flaky_browser (max 30 40) = Returned
   \<and> chat_send flaky_browser 2 (py ''4915112345678'') (py ''hello'') = Raised (py ''no message box'')
   \<and> send_messages_single_tab (Selenium_present True) flaky_browser
         [py ''+905551234567'', py ''+4915112345678'', py ''+12025550123''] (py ''hello'') 40 None
       = ([Open_browser Returned, Login_wait 40 Returned, Stdout (Starting_single_tab 3),
           Stdout (Sending_to 1 3 (py ''+905551234567'')),
           Chat_send (py ''905551234567'') (py ''hello'') Returned,
           Sleep 3,
           Stdout (Sending_to 2 3 (py ''+4915112345678'')),
           Chat_send (py ''4915112345678'') (py ''hello'') (Raised (py ''no message box'')),
           Stderr (Failed_to_send (py ''+4915112345678'') (py ''no message box'')),
           Sleep 2,
           Stdout (Sending_to 3 3 (py ''+12025550123'')),
           Chat_send (py ''12025550123'') (py ''hello'') Returned,
           Sleep 3,
           Stdout Done], None)
   \<and> outcomes (fst (send_messages_single_tab (Selenium_present True) flaky_browser
         [py ''+905551234567'', py ''+4915112345678'', py ''+12025550123''] (py ''hello'') 40 None))
       = [Sent, Failed (py ''no message box''), Sent]
   \<and> attempts (fst (send_messages_single_tab (Selenium_present True) flaky_browser
         [py ''+905551234567'', py ''+4915112345678'', py ''+12025550123''] (py ''hello'') 40 None))
       = [py ''905551234567'', py ''4915112345678'', py ''12025550123'']"
proof -
  let ?rs = "[py ''+905551234567'', py ''+4915112345678'', py ''+12025550123'']"
  let ?a = "send_messages_to_recipients flaky_sendwhatmsg cpython_sleep ?rs (py ''hello'') 40 True 3"
  let ?b = "send_messages_single_tab (Selenium_present True) flaky_browser ?rs (py ''hello'') 40 None"
  have k: "(1::nat) < length ?rs" by simp
  have f: "flaky_sendwhatmsg (Suc 1) (?rs ! 1) (py ''hello'') 40 True 3 = Raised (py ''timeout'')"
    by (simp add: flaky_sendwhatmsg_def)
  have r: "utf8_encodable (py ''hello'')" "open_browser flaky_browser None = Returned"
    "login_wait flaky_browser (max 30 40) = Returned"
    by (simp_all add: flaky_browser_def utf8_encodable_def)
  have g: "chat_send flaky_browser (Suc 1) (py_replace_char (of_char CHR ''+'') [] (?rs ! 1))
      (py ''hello'') = Raised (py ''no message box'')"
    by (simp add: flaky_browser_def py_replace_char_def)
  note t = failed_send_does_not_stop_dispatch
    [OF k, of flaky_sendwhatmsg "py ''hello''" 40 True 3 "py ''timeout''" cpython_sleep
      flaky_browser None 40 "py ''no message box''"]
  from t f have a: "snd ?a = None"
    "fst ?a = [Stdout (Starting 3),
           Stdout (Sending_to 1 3 (py ''+905551234567'')),
           Send_instantly (py ''+905551234567'') (py ''hello'') 40 True 3 Returned,
           Sleep 50,
           Stdout (Sending_to 2 3 (py ''+4915112345678'')),
           Send_instantly (py ''+4915112345678'') (py ''hello'') 40 True 3 (Raised (py ''timeout'')),
           Stderr (Failed_to_send (py ''+4915112345678'') (py ''timeout'')),
           Sleep 5,
           Stdout (Sending_to 3 3 (py ''+12025550123'')),
           Send_instantly (py ''+12025550123'') (py ''hello'') 40 True 3 Returned,
           Sleep 50,
           Stdout Done]"
    by (simp_all add: flaky_sendwhatmsg_def cpython_sleep_def)
  from t r g have b: "snd ?b = None"
    "fst ?b = [Open_browser Returned, Login_wait 40 Returned, Stdout (Starting_single_tab 3),
           Stdout (Sending_to 1 3 (py ''+905551234567'')),
           Chat_send (py ''905551234567'') (py ''hello'') Returned,
           Sleep 3,
           Stdout (Sending_to 2 3 (py ''+4915112345678'')),
           Chat_send (py ''4915112345678'') (py ''hello'') (Raised (py ''no message box'')),
           Stderr (Failed_to_send (py ''+4915112345678'') (py ''no message box'')),
           Sleep 2,
           Stdout (Sending_to 3 3 (py ''+12025550123'')),
           Chat_send (py ''12025550123'') (py ''hello'') Returned,
           Sleep 3,
           Stdout Done]"
    by (simp_all add: flaky_browser_def py_replace_char_def)
  have ra: "?a = ([Stdout (Starting 3),
           Stdout (Sending_to 1 3 (py ''+905551234567'')),
           Send_instantly (py ''+905551234567'') (py ''hello'') 40 True 3 Returned,
           Sleep 50,
           Stdout (Sending_to 2 3 (py ''+4915112345678'')),
           Send_instantly (py ''+4915112345678'') (py ''hello'') 40 True 3 (Raised (py ''timeout'')),
           Stderr (Failed_to_send (py ''+4915112345678'') (py ''timeout'')),
           Sleep 5,
           Stdout (Sending_to 3 3 (py ''+12025550123'')),
           Send_instantly (py ''+12025550123'') (py ''hello'') 40 True 3 Returned,
           Sleep 50,
           Stdout Done], None)"
    apply (rule prod_eqI)
    using a apply simp_all
    done
  have rb: "?b = ([Open_browser Returned, Login_wait 40 Returned, Stdout (Starting_single_tab 3),
           Stdout (Sending_to 1 3 (py ''+905551234567'')),
           Chat_send (py ''905551234567'') (py ''hello'') Returned,
           Sleep 3,
           Stdout (Sending_to 2 3 (py ''+4915112345678'')),
           Chat_send (py ''4915112345678'') (py ''hello'') (Raised (py ''no message box'')),
           Stderr (Failed_to_send (py ''+4915112345678'') (py ''no message box'')),
           Sleep 2,
           Stdout (Sending_to 3 3 (py ''+12025550123'')),
           Chat_send (py ''12025550123'') (py ''hello'') Returned,
           Sleep 3,
           Stdout Done], None)"
    apply (rule prod_eqI)
    using b apply simp_all
    done
  have oa: "outcomes (fst ?a) = [Sent, Failed (py ''timeout''), Sent]"
    and aa: "attempts (fst ?a) = ?rs"
    unfolding a by (simp_all add: attempts_def)
  have ob: "outcomes (fst ?b) = [Sent, Failed (py ''no message box''), Sent]"
    and ab: "attempts (fst ?b) = [py ''905551234567'', py ''4915112345678'', py ''12025550123'']"
    unfolding b by (simp_all add: attempts_def)
  have f': "flaky_sendwhatmsg 2 (py ''+4915112345678'') (py ''hello'') 40 True 3
      = Raised (py ''timeout'')"
    and g': "chat_send flaky_browser 2 (py ''4915112345678'') (py ''hello'')
      = Raised (py ''no message box'')"
    by (simp_all add: flaky_sendwhatmsg_def flaky_browser_def)
  show ?thesis
    by (intro conjI) (fact k f' ra oa aa r g' rb ob ab)+
qed

text \<open>
  C7, as the claim states it, fails for the single-tab strategy when Selenium is not
  installed: the check of \<open>SELENIUM_AVAILABLE\<close> comes before the check of the list, and the
  empty list raises \<open>RuntimeError\<close>.
\<close>

theorem empty_dispatch_without_selenium:
  "snd (send_messages_single_tab Selenium_missing steady_browser [] (py ''hello'') 40 None)
     = Some (RuntimeError
         (py ''Selenium is not available. Install with: python -m pip install selenium''))"
  by (simp add: send_messages_single_tab_def)

text \<open>
  C7, amended. On the empty list \<open>send_messages_to_recipients\<close> prints that there are no
  valid recipients, makes no send attempt, has no outcome and raises nothing; so does
  \<open>send_messages_single_tab\<close> when Selenium is available, with or without
  webdriver-manager. When Selenium is not available, \<open>send_messages_single_tab\<close> raises
  \<open>RuntimeError\<close> before it looks at the list.
\<close>

theorem empty_dispatch:
  "send_messages_to_recipients sendwhatmsg time_sleep [] message w tc ct
       = ([Stdout No_valid_recipients], None)
   \<and> send_messages_single_tab (Selenium_present wdm) B [] message iw d
       = ([Stdout No_valid_recipients], None)
   \<and> send_messages_single_tab Selenium_missing B [] message iw d
       = ([], Some (RuntimeError
            (py ''Selenium is not available. Install with: python -m pip install selenium'')))
   \<and> outcomes [Stdout No_valid_recipients] = []
   \<and> attempts [Stdout No_valid_recipients] = []"
  by (simp add: send_messages_to_recipients_def send_messages_single_tab_def attempts_def)

text \<open>
  C8, as the claim states it, fails for the single-tab strategy: with a wait of 40
  seconds its pauses are 3 seconds after a send that worked and 2 seconds after one that
  failed, not 50 and 5.
\<close>

theorem single_tab_pacing_differs:
  "send_messages_single_tab (Selenium_present True) flaky_browser
       [py ''+905551234567'', py ''+4915112345678''] (py ''hello'') 40 None
     = ([Open_browser Returned, Login_wait 40 Returned, Stdout (Starting_single_tab 2),
         Stdout (Sending_to 1 2 (py ''+905551234567'')),
         Chat_send (py ''905551234567'') (py ''hello'') Returned,
         Sleep 3,
         Stdout (Sending_to 2 2 (py ''+4915112345678'')),
         Chat_send (py ''4915112345678'') (py ''hello'') (Raised (py ''no message box'')),
         Stderr (Failed_to_send (py ''+4915112345678'') (py ''no message box'')),
         Sleep 2,
         Stdout Done], None)
   \<and> (3::int) \<noteq> max 20 (40 + 10)
   \<and> (2::int) \<noteq> 5"
  by (simp add: send_messages_single_tab_def flaky_browser_def utf8_encodable_def
      py_replace_char_def Let_def)

text \<open>
  C8, amended. A run is the paths of its recipients one after the other, and each path
  ends with its pause: the pause comes after the send of that recipient (and after the
  diagnostic, if there is one) and before the progress line of the next recipient, or
  before the last line. In \<open>send_messages_to_recipients\<close> the pause after a send that
  returned is \<open>max(20, per_send_wait_seconds + 10)\<close> seconds; when \<open>time.sleep\<close> refuses that
  time, the recipient is reported as failed and the pause is 5 seconds; after a send that
  raised it is 5 seconds. In \<open>send_messages_single_tab\<close>, for a browser that started and
  logged in and a message that can be quoted, the pause is 3 seconds after a send that
  returned and 2 seconds after one that raised.
\<close>

theorem pacing_by_strategy:
  "fst (send_messages_to_recipients sendwhatmsg time_sleep recipients message w tc ct)
     = (if recipients = [] then [Stdout No_valid_recipients]
        else [Stdout (Starting (length recipients))]
          @ concat (map (\<lambda>(index, phone).
                pywhatkit_path message w tc ct (length recipients) index phone
                  (sendwhatmsg index phone message w tc ct)
                  (time_sleep index (max 20 (w + 10))))
              (enumerate 1 recipients))
          @ [Stdout Done])
   \<and> pywhatkit_path message w tc ct n index phone Returned Returned
     = [Stdout (Sending_to index n phone), Send_instantly phone message w tc ct Returned,
        Sleep (max 20 (w + 10))]
   \<and> pywhatkit_path message w tc ct n index phone Returned (Raised refused)
     = [Stdout (Sending_to index n phone), Send_instantly phone message w tc ct Returned,
        Stderr (Failed_to_send phone refused), Sleep 5]
   \<and> pywhatkit_path message w tc ct n index phone (Raised err) slept
     = [Stdout (Sending_to index n phone), Send_instantly phone message w tc ct (Raised err),
        Stderr (Failed_to_send phone err), Sleep 5]
   \<and> (utf8_encodable message \<longrightarrow> open_browser B d = Returned \<longrightarrow>
        login_wait B (max 30 iw) = Returned \<longrightarrow>
        fst (send_messages_single_tab (Selenium_present True) B recipients message iw d)
          = (if recipients = [] then [Stdout No_valid_recipients]
             else (case d of None \<Rightarrow> []
                   | Some dir \<Rightarrow> if dir = [] then [] else [Make_profile_dir dir])
               @ [Open_browser Returned, Login_wait (max 30 iw) Returned,
                  Stdout (Starting_single_tab (length recipients))]
               @ concat (map (\<lambda>(index, phone).
                     single_tab_path message (length recipients) index phone
                       (chat_send B index (py_replace_char (of_char CHR ''+'') [] phone) message))
                   (enumerate 1 recipients))
               @ [Stdout Done]))
   \<and> single_tab_path message n index phone Returned
     = [Stdout (Sending_to index n phone),
        Chat_send (py_replace_char (of_char CHR ''+'') [] phone) message Returned, Sleep 3]
   \<and> single_tab_path message n index phone (Raised err)
     = [Stdout (Sending_to index n phone),
        Chat_send (py_replace_char (of_char CHR ''+'') [] phone) message (Raised err),
        Stderr (Failed_to_send phone err), Sleep 2]"
proof (intro conjI impI)
  show "fst (send_messages_to_recipients sendwhatmsg time_sleep recipients message w tc ct)
     = (if recipients = [] then [Stdout No_valid_recipients]
        else [Stdout (Starting (length recipients))]
          @ concat (map (\<lambda>(index, phone).
                pywhatkit_path message w tc ct (length recipients) index phone
                  (sendwhatmsg index phone message w tc ct)
                  (time_sleep index (max 20 (w + 10))))
              (enumerate 1 recipients))
          @ [Stdout Done])"
    by (rule pywhatkit_trace)
next
  assume r: "utf8_encodable message" "open_browser B d = Returned"
    "login_wait B (max 30 iw) = Returned"
  show "fst (send_messages_single_tab (Selenium_present True) B recipients message iw d)
      = (if recipients = [] then [Stdout No_valid_recipients]
         else (case d of None \<Rightarrow> []
               | Some dir \<Rightarrow> if dir = [] then [] else [Make_profile_dir dir])
           @ [Open_browser Returned, Login_wait (max 30 iw) Returned,
              Stdout (Starting_single_tab (length recipients))]
           @ concat (map (\<lambda>(index, phone).
                 single_tab_path message (length recipients) index phone
                   (chat_send B index (py_replace_char (of_char CHR ''+'') [] phone) message))
               (enumerate 1 recipients))
           @ [Stdout Done])"
    unfolding single_tab_trace [OF r] by simp
qed simp_all

theorem pacing_by_strategy_witness:
  "fst (send_messages_to_recipients flaky_sendwhatmsg cpython_sleep
       [py ''+905551234567'', py ''+4915112345678''] (py ''hello'') 40 True 3)
     = [Stdout (Starting 2),
        Stdout (Sending_to 1 2 (py ''+905551234567'')),
        Send_instantly (py ''+905551234567'') (py ''hello'') 40 True 3 Returned,
        Sleep 50,
        Stdout (Sending_to 2 2 (py ''+4915112345678'')),
        Send_instantly (py ''+4915112345678'') (py ''hello'') 40 True 3 (Raised (py ''timeout'')),
        Stderr (Failed_to_send (py ''+4915112345678'') (py ''timeout'')),
        Sleep 5,
        Stdout Done]
   \<and> fst (send_messages_to_recipients steady_sendwhatmsg cpython_sleep
       [py ''+905551234567''] (py ''hello'') 9223372027 True 3)
     = [Stdout (Starting 1),
        Stdout (Sending_to 1 1 (py ''+905551234567'')),
        Send_instantly (py ''+905551234567'') (py ''hello'') 9223372027 True 3 Returned,
        Stderr (Failed_to_send (py ''+905551234567'')
          (py ''timestamp too large to convert to C _PyTime_t'')),
        Sleep 5,
        Stdout Done]
   \<and> utf8_encodable (py ''hello'')
   \<and> open_browser flaky_browser None = Returned
   \<and> login_wait flaky_browser (max 30 40) = Returned
   \<and> fst (send_messages_single_tab (Selenium_present True) flaky_browser
       [py ''+905551234567'', py ''+4915112345678''] (py ''hello'') 40 None)
     = [Open_browser Returned, Login_wait 40 Returned, Stdout (Starting_single_tab 2),
        Stdout (Sending_to 1 2 (py ''+905551234567'')),
        Chat_send (py ''905551234567'') (py ''hello'') Returned,
        Sleep 3,
        Stdout (Sending_to 2 2 (py ''+4915112345678'')),
        Chat_send (py ''4915112345678'') (py ''hello'') (Raised (py ''no message box'')),
        Stderr (Failed_to_send (py ''+4915112345678'') (py ''no message box'')),
        Sleep 2,
        Stdout Done]"
proof -
  have r: "utf8_encodable (py ''hello'')" "open_browser flaky_browser None = Returned"
    "login_wait flaky_browser (max 30 40) = Returned"
    by (simp_all add: flaky_browser_def utf8_encodable_def)
  from pacing_by_strategy
    [of flaky_sendwhatmsg cpython_sleep "[py ''+905551234567'', py ''+4915112345678'']"
      "py ''hello''" 40 True 3 0 0 "[]" "[]" "[]" Returned flaky_browser None 40]
    pacing_by_strategy
    [of steady_sendwhatmsg cpython_sleep "[py ''+905551234567'']"
      "py ''hello''" 9223372027 True 3 0 0 "[]" "[]" "[]" Returned flaky_browser None 40]
    r
  show ?thesis
    by (simp add: flaky_sendwhatmsg_def steady_sendwhatmsg_def cpython_sleep_def flaky_browser_def
        py_replace_char_def)
qed

end
